theory Spec2Isabelle
  imports Main "HOL-Library.Word"
begin

section \<open>The to-do CLI: two in-memory task trackers\<close>

text \<open>
  The repository holds the same layered to-do program twice, once with Spanish identifiers
  (\<open>Usuario\<close>, \<open>Tarea\<close>, \<open>CrearUsuario\<close>, ...) and once with English ones (\<open>User\<close>,
  \<open>Task\<close>, \<open>CreateUser\<close>, ...). Both are embedded here, function by function.

  Conventions of the embedding.
  \<^item> A Go struct is a record. Go allows the same field name in several structs; the record
    fields carry the struct's name as a prefix (\<open>Tarea_ID\<close> for \<open>Tarea.ID\<close>).
  \<^item> A method is named after its receiver: \<open>RepositorioTareaMem_Guardar\<close> for
    \<open>(*RepositorioTareaMem).Guardar\<close>. A method that mutates its receiver returns the new
    receiver as the last component of its result.
  \<^item> Go's \<open>error\<close> result is an \<open>error option\<close>, \<open>None\<close> for \<open>nil\<close>. A function that
    returns \<open>(T, error)\<close> returns the pair, zero value included, as the Go code does.
  \<^item> The use cases take a repository interface in Go. Each interface has exactly one
    implementation in the program, the in-memory one that \<open>main\<close> passes. The use cases
    that make a single call (\<open>CrearUsuario\<close>, \<open>CrearTarea\<close>, \<open>ListarTareas\<close> and their
    English counterparts) are embedded over that implementation. \<open>FinalizarTarea\<close> and
    \<open>CompleteTask\<close> make two calls, the second depending on the first; they are embedded
    over the interface, a record of methods over the state of the implementation, so that
    the calls they make can be told apart from their effect on one particular store.
  \<^item> A run-time panic is a value \<open>Inl\<close> of a sum type.
  \<^item> The Go variable \<open>id\<close> is written \<open>id'\<close>, since \<open>id\<close> is HOL's identity function.
\<close>

subsection \<open>Errors and panics\<close>

datatype error = Errorf string

datatype panic = SliceBoundsOutOfRange int

subsection \<open>Domain layer, Spanish variant\<close>

record Usuario =
  Usuario_ID :: string
  Usuario_Nombre :: string
  Usuario_Rol :: string

text \<open>\<open>EstadoTarea\<close> is declared as a string type with three named constants.\<close>

type_synonym EstadoTarea = string

definition Pendiente :: EstadoTarea where
  "Pendiente = ''Pendiente''"

definition EnProgreso :: EstadoTarea where
  "EnProgreso = ''En progreso''"

definition Finalizada :: EstadoTarea where
  "Finalizada = ''Finalizada''"

record Tarea =
  Tarea_ID :: string
  Tarea_UsuarioID :: string
  Tarea_Titulo :: string
  Tarea_Estado :: EstadoTarea

text \<open>The zero values \<open>Usuario{}\<close> and \<open>Tarea{}\<close> returned next to an error.\<close>

definition Usuario_zero :: Usuario where
  "Usuario_zero = \<lparr>Usuario_ID = [], Usuario_Nombre = [], Usuario_Rol = []\<rparr>"

definition Tarea_zero :: Tarea where
  "Tarea_zero = \<lparr>Tarea_ID = [], Tarea_UsuarioID = [], Tarea_Titulo = [], Tarea_Estado = []\<rparr>"

subsection \<open>Utilities\<close>

text \<open>
  \<open>generarID\<close> reads five numbers of the running process from package \<open>os\<close>. They are the
  ambient input of the function and appear here as a record; Go's \<open>int\<close> is taken at its
  64-bit width, read as two's complement.
\<close>

record os =
  Getpid :: "64 word"
  Getuid :: "64 word"
  Geteuid :: "64 word"
  Getppid :: "64 word"
  Getegid :: "64 word"

definition digit_char :: "nat \<Rightarrow> char" where
  "digit_char d =
     (if d = 0 then CHR ''0'' else if d = 1 then CHR ''1'' else if d = 2 then CHR ''2''
      else if d = 3 then CHR ''3'' else if d = 4 then CHR ''4'' else if d = 5 then CHR ''5''
      else if d = 6 then CHR ''6'' else if d = 7 then CHR ''7'' else if d = 8 then CHR ''8''
      else CHR ''9'')"

fun decimal_nat :: "nat \<Rightarrow> string" where
  "decimal_nat n =
     (if n < 10 then [digit_char n] else decimal_nat (n div 10) @ [digit_char (n mod 10)])"

declare decimal_nat.simps [simp del]

text \<open>\<open>fmt.Sprintf("%d", i)\<close> for an \<open>int\<close>: a minus sign for a negative value, then the digits.\<close>

definition Sprintf_d :: "64 word \<Rightarrow> string" where
  "Sprintf_d w =
     (let i = sint w in if i < 0 then CHR ''-'' # decimal_nat (nat (- i)) else decimal_nat (nat i))"

definition generarID :: "os \<Rightarrow> string" where
  "generarID p = Sprintf_d (Getpid p + Getuid p + Geteuid p + Getppid p + Getegid p)"

text \<open>
  \<open>limpiar\<close> slices the bytes of \<open>s\<close> up to \<open>len(s) - 1\<close>. The upper bound is computed on
  \<open>int\<close>; a slice expression with a negative bound panics.
\<close>

definition limpiar :: "string \<Rightarrow> panic + string" where
  "limpiar s =
     (let hi = int (length s) - 1
      in if hi < 0 \<or> int (length s) < hi then Inl (SliceBoundsOutOfRange hi)
         else Inr (take (nat hi) s))"

subsection \<open>Infrastructure layer, Spanish variant\<close>

record RepositorioUsuarioMem =
  usuarios :: "string \<rightharpoonup> Usuario"

definition NuevoRepositorioUsuarioMem :: RepositorioUsuarioMem where
  "NuevoRepositorioUsuarioMem = \<lparr>usuarios = Map.empty\<rparr>"

definition RepositorioUsuarioMem_Guardar ::
    "RepositorioUsuarioMem \<Rightarrow> Usuario \<Rightarrow> error option \<times> RepositorioUsuarioMem" where
  "RepositorioUsuarioMem_Guardar r usuario =
     (None, r\<lparr>usuarios := (usuarios r)(Usuario_ID usuario \<mapsto> usuario)\<rparr>)"

definition RepositorioUsuarioMem_BuscarPorID ::
    "RepositorioUsuarioMem \<Rightarrow> string \<Rightarrow> Usuario \<times> error option" where
  "RepositorioUsuarioMem_BuscarPorID r id' =
     (case usuarios r id' of
        None \<Rightarrow> (Usuario_zero, Some (Errorf ''usuario no encontrado''))
      | Some usuario \<Rightarrow> (usuario, None))"

text \<open>
  Go leaves the order in which \<open>range\<close> visits the keys of a map unspecified. The loops
  over a map take that order as a parameter \<open>orden\<close>: the list of keys in the order the
  run time happens to visit them. A run of the program corresponds to an \<open>orden\<close> that
  lists every key of the map once.
\<close>

fun RepositorioUsuarioMem_Listar_range ::
    "(string \<rightharpoonup> Usuario) \<Rightarrow> string list \<Rightarrow> Usuario list \<Rightarrow> Usuario list" where
  "RepositorioUsuarioMem_Listar_range m [] acc = acc"
| "RepositorioUsuarioMem_Listar_range m (k # ks) acc =
     (case m k of
        None \<Rightarrow> RepositorioUsuarioMem_Listar_range m ks acc
      | Some u \<Rightarrow> RepositorioUsuarioMem_Listar_range m ks (acc @ [u]))"

definition RepositorioUsuarioMem_Listar ::
    "string list \<Rightarrow> RepositorioUsuarioMem \<Rightarrow> Usuario list" where
  "RepositorioUsuarioMem_Listar orden r = RepositorioUsuarioMem_Listar_range (usuarios r) orden []"

record RepositorioTareaMem =
  tareas :: "string \<rightharpoonup> Tarea"

definition NuevoRepositorioTareaMem :: RepositorioTareaMem where
  "NuevoRepositorioTareaMem = \<lparr>tareas = Map.empty\<rparr>"

definition RepositorioTareaMem_Guardar ::
    "RepositorioTareaMem \<Rightarrow> Tarea \<Rightarrow> error option \<times> RepositorioTareaMem" where
  "RepositorioTareaMem_Guardar r tarea =
     (None, r\<lparr>tareas := (tareas r)(Tarea_ID tarea \<mapsto> tarea)\<rparr>)"

definition RepositorioTareaMem_BuscarPorID ::
    "RepositorioTareaMem \<Rightarrow> string \<Rightarrow> Tarea \<times> error option" where
  "RepositorioTareaMem_BuscarPorID r id' =
     (case tareas r id' of
        None \<Rightarrow> (Tarea_zero, Some (Errorf ''tarea no encontrada''))
      | Some tarea \<Rightarrow> (tarea, None))"

fun RepositorioTareaMem_ListarPorUsuario_range ::
    "(string \<rightharpoonup> Tarea) \<Rightarrow> string \<Rightarrow> string list \<Rightarrow> Tarea list \<Rightarrow> Tarea list" where
  "RepositorioTareaMem_ListarPorUsuario_range m usuarioID [] acc = acc"
| "RepositorioTareaMem_ListarPorUsuario_range m usuarioID (k # ks) acc =
     (case m k of
        None \<Rightarrow> RepositorioTareaMem_ListarPorUsuario_range m usuarioID ks acc
      | Some t \<Rightarrow>
          if Tarea_UsuarioID t = usuarioID
          then RepositorioTareaMem_ListarPorUsuario_range m usuarioID ks (acc @ [t])
          else RepositorioTareaMem_ListarPorUsuario_range m usuarioID ks acc)"

definition RepositorioTareaMem_ListarPorUsuario ::
    "string list \<Rightarrow> RepositorioTareaMem \<Rightarrow> string \<Rightarrow> Tarea list" where
  "RepositorioTareaMem_ListarPorUsuario orden r usuarioID =
     RepositorioTareaMem_ListarPorUsuario_range (tareas r) usuarioID orden []"

definition RepositorioTareaMem_Actualizar ::
    "RepositorioTareaMem \<Rightarrow> Tarea \<Rightarrow> error option \<times> RepositorioTareaMem" where
  "RepositorioTareaMem_Actualizar r tarea =
     (case tareas r (Tarea_ID tarea) of
        None \<Rightarrow> (Some (Errorf ''tarea no encontrada''), r)
      | Some _ \<Rightarrow> (None, r\<lparr>tareas := (tareas r)(Tarea_ID tarea \<mapsto> tarea)\<rparr>))"

subsection \<open>Application layer, Spanish variant\<close>

definition CrearUsuario ::
    "os \<Rightarrow> RepositorioUsuarioMem \<Rightarrow> string \<Rightarrow> string
      \<Rightarrow> (Usuario \<times> error option) \<times> RepositorioUsuarioMem" where
  "CrearUsuario p repo nombre rol =
     (let id' = generarID p;
          usuario = \<lparr>Usuario_ID = id', Usuario_Nombre = nombre, Usuario_Rol = rol\<rparr>
      in case RepositorioUsuarioMem_Guardar repo usuario of
           (Some err, repo') \<Rightarrow> ((Usuario_zero, Some err), repo')
         | (None, repo') \<Rightarrow> ((usuario, None), repo'))"

definition CrearTarea ::
    "os \<Rightarrow> RepositorioTareaMem \<Rightarrow> string \<Rightarrow> string
      \<Rightarrow> (Tarea \<times> error option) \<times> RepositorioTareaMem" where
  "CrearTarea p repo usuarioID titulo =
     (let id' = generarID p;
          tarea = \<lparr>Tarea_ID = id', Tarea_UsuarioID = usuarioID, Tarea_Titulo = titulo,
                   Tarea_Estado = Pendiente\<rparr>
      in case RepositorioTareaMem_Guardar repo tarea of
           (Some err, repo') \<Rightarrow> ((Tarea_zero, Some err), repo')
         | (None, repo') \<Rightarrow> ((tarea, None), repo'))"

text \<open>
  The interface \<open>RepositorioTarea\<close>: its four methods, over the state \<open>'s\<close> of whatever
  implements it. Any method of an implementation may change that state, so each returns
  the new one. \<open>ListarPorUsuario\<close> carries the order of visit, as above.
\<close>

record 's RepositorioTarea =
  RepositorioTarea_Guardar :: "'s \<Rightarrow> Tarea \<Rightarrow> error option \<times> 's"
  RepositorioTarea_BuscarPorID :: "'s \<Rightarrow> string \<Rightarrow> (Tarea \<times> error option) \<times> 's"
  RepositorioTarea_ListarPorUsuario :: "string list \<Rightarrow> 's \<Rightarrow> string \<Rightarrow> Tarea list \<times> 's"
  RepositorioTarea_Actualizar :: "'s \<Rightarrow> Tarea \<Rightarrow> error option \<times> 's"

text \<open>
  \<open>*RepositorioTareaMem\<close> as a \<open>RepositorioTarea\<close>: the value \<open>main\<close> passes to the use
  cases. \<open>BuscarPorID\<close> and \<open>ListarPorUsuario\<close> leave the receiver as it is.
\<close>

definition RepositorioTareaMem_methods :: "RepositorioTareaMem RepositorioTarea" where
  "RepositorioTareaMem_methods =
     \<lparr>RepositorioTarea_Guardar = RepositorioTareaMem_Guardar,
      RepositorioTarea_BuscarPorID = (\<lambda>r id'. (RepositorioTareaMem_BuscarPorID r id', r)),
      RepositorioTarea_ListarPorUsuario =
        (\<lambda>orden r usuarioID. (RepositorioTareaMem_ListarPorUsuario orden r usuarioID, r)),
      RepositorioTarea_Actualizar = RepositorioTareaMem_Actualizar\<rparr>"

definition FinalizarTarea :: "'s RepositorioTarea \<Rightarrow> 's \<Rightarrow> string \<Rightarrow> error option \<times> 's" where
  "FinalizarTarea repo s tareaID =
     (case RepositorioTarea_BuscarPorID repo s tareaID of
        ((tarea, Some err), s') \<Rightarrow> (Some err, s')
      | ((tarea, None), s') \<Rightarrow>
          RepositorioTarea_Actualizar repo s' (tarea\<lparr>Tarea_Estado := Finalizada\<rparr>))"

definition ListarTareas :: "string list \<Rightarrow> RepositorioTareaMem \<Rightarrow> string \<Rightarrow> Tarea list" where
  "ListarTareas orden repo usuarioID = RepositorioTareaMem_ListarPorUsuario orden repo usuarioID"

subsection \<open>Domain layer, English variant\<close>

record User =
  User_ID :: string
  User_Name :: string
  User_Rol :: string

type_synonym TaskStatus = string

definition TaskPending :: TaskStatus where
  "TaskPending = ''Pendiente''"

definition TaskInProgress :: TaskStatus where
  "TaskInProgress = ''En progreso''"

definition TaskCompleted :: TaskStatus where
  "TaskCompleted = ''Finalizada''"

record Task =
  Task_ID :: string
  Task_UserID :: string
  Task_Title :: string
  Task_Status :: TaskStatus

definition User_zero :: User where
  "User_zero = \<lparr>User_ID = [], User_Name = [], User_Rol = []\<rparr>"

definition Task_zero :: Task where
  "Task_zero = \<lparr>Task_ID = [], Task_UserID = [], Task_Title = [], Task_Status = []\<rparr>"

definition generateID :: "os \<Rightarrow> string" where
  "generateID p = Sprintf_d (Getpid p + Getuid p + Geteuid p + Getppid p + Getegid p)"

definition trim :: "string \<Rightarrow> panic + string" where
  "trim s =
     (let hi = int (length s) - 1
      in if hi < 0 \<or> int (length s) < hi then Inl (SliceBoundsOutOfRange hi)
         else Inr (take (nat hi) s))"

subsection \<open>Infrastructure layer, English variant\<close>

record InMemoryUserRepo =
  users :: "string \<rightharpoonup> User"

definition NewInMemoryUserRepo :: InMemoryUserRepo where
  "NewInMemoryUserRepo = \<lparr>users = Map.empty\<rparr>"

definition InMemoryUserRepo_Save ::
    "InMemoryUserRepo \<Rightarrow> User \<Rightarrow> error option \<times> InMemoryUserRepo" where
  "InMemoryUserRepo_Save r user = (None, r\<lparr>users := (users r)(User_ID user \<mapsto> user)\<rparr>)"

definition InMemoryUserRepo_FindByID ::
    "InMemoryUserRepo \<Rightarrow> string \<Rightarrow> User \<times> error option" where
  "InMemoryUserRepo_FindByID r id' =
     (case users r id' of
        None \<Rightarrow> (User_zero, Some (Errorf ''usuario no encontrado''))
      | Some user \<Rightarrow> (user, None))"

fun InMemoryUserRepo_List_range ::
    "(string \<rightharpoonup> User) \<Rightarrow> string list \<Rightarrow> User list \<Rightarrow> User list" where
  "InMemoryUserRepo_List_range m [] acc = acc"
| "InMemoryUserRepo_List_range m (k # ks) acc =
     (case m k of
        None \<Rightarrow> InMemoryUserRepo_List_range m ks acc
      | Some u \<Rightarrow> InMemoryUserRepo_List_range m ks (acc @ [u]))"

definition InMemoryUserRepo_List :: "string list \<Rightarrow> InMemoryUserRepo \<Rightarrow> User list" where
  "InMemoryUserRepo_List order r = InMemoryUserRepo_List_range (users r) order []"

record InMemoryTaskRepo =
  tasks :: "string \<rightharpoonup> Task"

definition NewInMemoryTaskRepo :: InMemoryTaskRepo where
  "NewInMemoryTaskRepo = \<lparr>tasks = Map.empty\<rparr>"

definition InMemoryTaskRepo_Save ::
    "InMemoryTaskRepo \<Rightarrow> Task \<Rightarrow> error option \<times> InMemoryTaskRepo" where
  "InMemoryTaskRepo_Save r task = (None, r\<lparr>tasks := (tasks r)(Task_ID task \<mapsto> task)\<rparr>)"

definition InMemoryTaskRepo_FindByID ::
    "InMemoryTaskRepo \<Rightarrow> string \<Rightarrow> Task \<times> error option" where
  "InMemoryTaskRepo_FindByID r id' =
     (case tasks r id' of
        None \<Rightarrow> (Task_zero, Some (Errorf ''tarea no encontrada''))
      | Some task \<Rightarrow> (task, None))"

fun InMemoryTaskRepo_ListByUser_range ::
    "(string \<rightharpoonup> Task) \<Rightarrow> string \<Rightarrow> string list \<Rightarrow> Task list \<Rightarrow> Task list" where
  "InMemoryTaskRepo_ListByUser_range m userID [] acc = acc"
| "InMemoryTaskRepo_ListByUser_range m userID (k # ks) acc =
     (case m k of
        None \<Rightarrow> InMemoryTaskRepo_ListByUser_range m userID ks acc
      | Some t \<Rightarrow>
          if Task_UserID t = userID
          then InMemoryTaskRepo_ListByUser_range m userID ks (acc @ [t])
          else InMemoryTaskRepo_ListByUser_range m userID ks acc)"

definition InMemoryTaskRepo_ListByUser ::
    "string list \<Rightarrow> InMemoryTaskRepo \<Rightarrow> string \<Rightarrow> Task list" where
  "InMemoryTaskRepo_ListByUser order r userID =
     InMemoryTaskRepo_ListByUser_range (tasks r) userID order []"

definition InMemoryTaskRepo_Update ::
    "InMemoryTaskRepo \<Rightarrow> Task \<Rightarrow> error option \<times> InMemoryTaskRepo" where
  "InMemoryTaskRepo_Update r task =
     (case tasks r (Task_ID task) of
        None \<Rightarrow> (Some (Errorf ''tarea no encontrada''), r)
      | Some _ \<Rightarrow> (None, r\<lparr>tasks := (tasks r)(Task_ID task \<mapsto> task)\<rparr>))"

subsection \<open>Application layer, English variant\<close>

text \<open>\<open>CreateUser\<close> has no role parameter: the struct literal leaves \<open>Rol\<close> at its zero value.\<close>

definition CreateUser ::
    "os \<Rightarrow> InMemoryUserRepo \<Rightarrow> string \<Rightarrow> (User \<times> error option) \<times> InMemoryUserRepo" where
  "CreateUser p repo name =
     (let id' = generateID p;
          user = \<lparr>User_ID = id', User_Name = name, User_Rol = []\<rparr>
      in case InMemoryUserRepo_Save repo user of
           (Some err, repo') \<Rightarrow> ((User_zero, Some err), repo')
         | (None, repo') \<Rightarrow> ((user, None), repo'))"

definition CreateTask ::
    "os \<Rightarrow> InMemoryTaskRepo \<Rightarrow> string \<Rightarrow> string
      \<Rightarrow> (Task \<times> error option) \<times> InMemoryTaskRepo" where
  "CreateTask p repo userID title =
     (let id' = generateID p;
          task = \<lparr>Task_ID = id', Task_UserID = userID, Task_Title = title,
                  Task_Status = TaskPending\<rparr>
      in case InMemoryTaskRepo_Save repo task of
           (Some err, repo') \<Rightarrow> ((Task_zero, Some err), repo')
         | (None, repo') \<Rightarrow> ((task, None), repo'))"

text \<open>The interface \<open>TaskRepository\<close> and \<open>*InMemoryTaskRepo\<close> as one, as in the Spanish variant.\<close>

record 's TaskRepository =
  TaskRepository_Save :: "'s \<Rightarrow> Task \<Rightarrow> error option \<times> 's"
  TaskRepository_FindByID :: "'s \<Rightarrow> string \<Rightarrow> (Task \<times> error option) \<times> 's"
  TaskRepository_ListByUser :: "string list \<Rightarrow> 's \<Rightarrow> string \<Rightarrow> Task list \<times> 's"
  TaskRepository_Update :: "'s \<Rightarrow> Task \<Rightarrow> error option \<times> 's"

definition InMemoryTaskRepo_methods :: "InMemoryTaskRepo TaskRepository" where
  "InMemoryTaskRepo_methods =
     \<lparr>TaskRepository_Save = InMemoryTaskRepo_Save,
      TaskRepository_FindByID = (\<lambda>r id'. (InMemoryTaskRepo_FindByID r id', r)),
      TaskRepository_ListByUser =
        (\<lambda>order r userID. (InMemoryTaskRepo_ListByUser order r userID, r)),
      TaskRepository_Update = InMemoryTaskRepo_Update\<rparr>"

definition CompleteTask :: "'s TaskRepository \<Rightarrow> 's \<Rightarrow> string \<Rightarrow> error option \<times> 's" where
  "CompleteTask repo s taskID =
     (case TaskRepository_FindByID repo s taskID of
        ((task, Some err), s') \<Rightarrow> (Some err, s')
      | ((task, None), s') \<Rightarrow>
          TaskRepository_Update repo s' (task\<lparr>Task_Status := TaskCompleted\<rparr>))"

definition ListTasks :: "string list \<Rightarrow> InMemoryTaskRepo \<Rightarrow> string \<Rightarrow> Task list" where
  "ListTasks order repo userID = InMemoryTaskRepo_ListByUser order repo userID"

section \<open>Vocabulary of the statements\<close>

subsection \<open>Stores keyed by identifier\<close>

text \<open>
  Every write of the program stores an entity under its own identifier. The predicates
  below say so for a repository: the entity found under key \<open>k\<close> has identifier \<open>k\<close>.
  The empty repository satisfies them and every operation keeps them, so they hold in
  every repository a run can reach.
\<close>

definition usuarios_keyed :: "RepositorioUsuarioMem \<Rightarrow> bool" where
  "usuarios_keyed r \<longleftrightarrow> (\<forall>k u. usuarios r k = Some u \<longrightarrow> Usuario_ID u = k)"

definition tareas_keyed :: "RepositorioTareaMem \<Rightarrow> bool" where
  "tareas_keyed r \<longleftrightarrow> (\<forall>k t. tareas r k = Some t \<longrightarrow> Tarea_ID t = k)"

definition tasks_keyed :: "InMemoryTaskRepo \<Rightarrow> bool" where
  "tasks_keyed r \<longleftrightarrow> (\<forall>k t. tasks r k = Some t \<longrightarrow> Task_ID t = k)"

subsection \<open>Reading a decimal string\<close>

text \<open>
  The inverse of the rendering, written independently of it: the value of a digit string
  in base ten, with an optional leading minus sign.
\<close>

definition digit_value :: "char \<Rightarrow> nat" where
  "digit_value c = of_char c - 48"

definition nat_of_decimal :: "string \<Rightarrow> nat" where
  "nat_of_decimal s = foldl (\<lambda>n c. 10 * n + digit_value c) 0 s"

definition int_of_decimal :: "string \<Rightarrow> int" where
  "int_of_decimal s =
     (case s of
        [] \<Rightarrow> 0
      | c # ds \<Rightarrow> if c = CHR ''-'' then - int (nat_of_decimal ds) else int (nat_of_decimal s))"

text \<open>
  The decimal rendering of a number, stated without reference to how it is produced. The
  numeral of a natural number is a non-empty string of digits, with no leading zero unless
  it is the single digit zero, whose value in base ten is the number. The rendering of an
  integer is the numeral of its absolute value, preceded by a minus sign when it is
  negative and by nothing otherwise.
\<close>

definition is_digit :: "char \<Rightarrow> bool" where
  "is_digit c \<longleftrightarrow> c \<in> set ''0123456789''"

definition decimal_numeral :: "string \<Rightarrow> nat \<Rightarrow> bool" where
  "decimal_numeral ds n \<longleftrightarrow>
     ds \<noteq> [] \<and> list_all is_digit ds \<and> (1 < length ds \<longrightarrow> hd ds \<noteq> CHR ''0'')
     \<and> nat_of_decimal ds = n"

definition decimal_of :: "string \<Rightarrow> int \<Rightarrow> bool" where
  "decimal_of s i \<longleftrightarrow>
     (if i < 0 then s \<noteq> [] \<and> hd s = CHR ''-'' \<and> decimal_numeral (tl s) (nat (- i))
      else decimal_numeral s (nat i))"

text \<open>
  On Linux a process identifier is below \<open>2 ^ 22\<close> and a user or group identifier is a
  32-bit number; elsewhere the calls may return \<open>-1\<close>. In that range the five numbers add
  up without wrapping.
\<close>

definition ids_in_range :: "os \<Rightarrow> bool" where
  "ids_in_range p \<longleftrightarrow>
     \<bar>sint (Getpid p)\<bar> < 2 ^ 32 \<and> \<bar>sint (Getuid p)\<bar> < 2 ^ 32 \<and> \<bar>sint (Geteuid p)\<bar> < 2 ^ 32
     \<and> \<bar>sint (Getppid p)\<bar> < 2 ^ 32 \<and> \<bar>sint (Getegid p)\<bar> < 2 ^ 32"

subsection \<open>Observing the calls a use case makes\<close>

text \<open>
  A repository that records the calls it receives, in order, and passes each on to the
  repository it wraps. Its state is the state of the wrapped repository and the calls so
  far. It implements the interface, so a use case can be run against it.
\<close>

datatype tarea_call =
  Call_Guardar Tarea
  | Call_BuscarPorID string
  | Call_ListarPorUsuario string
  | Call_Actualizar Tarea

definition recording_RepositorioTarea ::
    "'s RepositorioTarea \<Rightarrow> ('s \<times> tarea_call list) RepositorioTarea" where
  "recording_RepositorioTarea repo =
     \<lparr>RepositorioTarea_Guardar =
        (\<lambda>(s, calls) tarea.
           case RepositorioTarea_Guardar repo s tarea of
             (err, s') \<Rightarrow> (err, (s', calls @ [Call_Guardar tarea]))),
      RepositorioTarea_BuscarPorID =
        (\<lambda>(s, calls) k.
           case RepositorioTarea_BuscarPorID repo s k of
             (found, s') \<Rightarrow> (found, (s', calls @ [Call_BuscarPorID k]))),
      RepositorioTarea_ListarPorUsuario =
        (\<lambda>orden (s, calls) usuarioID.
           case RepositorioTarea_ListarPorUsuario repo orden s usuarioID of
             (listed, s') \<Rightarrow> (listed, (s', calls @ [Call_ListarPorUsuario usuarioID]))),
      RepositorioTarea_Actualizar =
        (\<lambda>(s, calls) tarea.
           case RepositorioTarea_Actualizar repo s tarea of
             (err, s') \<Rightarrow> (err, (s', calls @ [Call_Actualizar tarea])))\<rparr>"

datatype task_call =
  Call_Save Task
  | Call_FindByID string
  | Call_ListByUser string
  | Call_Update Task

definition recording_TaskRepository ::
    "'s TaskRepository \<Rightarrow> ('s \<times> task_call list) TaskRepository" where
  "recording_TaskRepository repo =
     \<lparr>TaskRepository_Save =
        (\<lambda>(s, calls) task.
           case TaskRepository_Save repo s task of
             (err, s') \<Rightarrow> (err, (s', calls @ [Call_Save task]))),
      TaskRepository_FindByID =
        (\<lambda>(s, calls) k.
           case TaskRepository_FindByID repo s k of
             (found, s') \<Rightarrow> (found, (s', calls @ [Call_FindByID k]))),
      TaskRepository_ListByUser =
        (\<lambda>order (s, calls) userID.
           case TaskRepository_ListByUser repo order s userID of
             (listed, s') \<Rightarrow> (listed, (s', calls @ [Call_ListByUser userID]))),
      TaskRepository_Update =
        (\<lambda>(s, calls) task.
           case TaskRepository_Update repo s task of
             (err, s') \<Rightarrow> (err, (s', calls @ [Call_Update task])))\<rparr>"

subsection \<open>Comparing the two variants\<close>




subsection \<open>Sample data\<close>

definition run_os :: os where
  "run_os = \<lparr>Getpid = 4242, Getuid = 1000, Geteuid = 1000, Getppid = 4200, Getegid = 1000\<rparr>"

definition alice :: Usuario where
  "alice = \<lparr>Usuario_ID = ''7'', Usuario_Nombre = ''Alice'', Usuario_Rol = ''admin''\<rparr>"

definition milk :: Tarea where
  "milk = \<lparr>Tarea_ID = ''7'', Tarea_UsuarioID = ''7'', Tarea_Titulo = ''Buy milk'',
       Tarea_Estado = Pendiente\<rparr>"

definition bread :: Tarea where
  "bread = \<lparr>Tarea_ID = ''8'', Tarea_UsuarioID = ''9'', Tarea_Titulo = ''Buy bread'',
       Tarea_Estado = Finalizada\<rparr>"

definition milk_en :: Task where
  "milk_en = \<lparr>Task_ID = ''7'', Task_UserID = ''7'', Task_Title = ''Buy milk'',
       Task_Status = TaskPending\<rparr>"

definition bread_en :: Task where
  "bread_en = \<lparr>Task_ID = ''8'', Task_UserID = ''9'', Task_Title = ''Buy bread'',
       Task_Status = TaskCompleted\<rparr>"

section \<open>Invariant: entities are stored under their identifier\<close>

lemma usuarios_keyed_Nuevo: "usuarios_keyed NuevoRepositorioUsuarioMem"
  by (simp add: usuarios_keyed_def NuevoRepositorioUsuarioMem_def)

lemma tareas_keyed_Nuevo: "tareas_keyed NuevoRepositorioTareaMem"
  by (simp add: tareas_keyed_def NuevoRepositorioTareaMem_def)

lemma usuarios_keyed_Guardar:
  "usuarios_keyed r \<Longrightarrow> usuarios_keyed (snd (RepositorioUsuarioMem_Guardar r u))"
  by (simp add: usuarios_keyed_def RepositorioUsuarioMem_Guardar_def)

lemma tareas_keyed_Guardar:
  "tareas_keyed r \<Longrightarrow> tareas_keyed (snd (RepositorioTareaMem_Guardar r t))"
  by (simp add: tareas_keyed_def RepositorioTareaMem_Guardar_def)

lemma tareas_keyed_Actualizar:
  "tareas_keyed r \<Longrightarrow> tareas_keyed (snd (RepositorioTareaMem_Actualizar r t))"
  by (simp add: tareas_keyed_def RepositorioTareaMem_Actualizar_def split: option.splits)

lemma tareas_keyed_FinalizarTarea:
  "tareas_keyed r \<Longrightarrow> tareas_keyed (snd (FinalizarTarea RepositorioTareaMem_methods r k))"
  by (simp add: FinalizarTarea_def RepositorioTareaMem_methods_def
      RepositorioTareaMem_BuscarPorID_def tareas_keyed_Actualizar split: option.splits)

text \<open>In such a store, holding an entity with identifier \<open>k\<close> is holding the key \<open>k\<close>.\<close>

lemma usuarios_keyed_stored:
  "usuarios_keyed r \<Longrightarrow> (\<exists>u \<in> ran (usuarios r). Usuario_ID u = k) \<longleftrightarrow> usuarios r k \<noteq> None"
  unfolding usuarios_keyed_def ran_def by auto

lemma tareas_keyed_stored:
  "tareas_keyed r \<Longrightarrow> (\<exists>t \<in> ran (tareas r). Tarea_ID t = k) \<longleftrightarrow> tareas r k \<noteq> None"
  unfolding tareas_keyed_def ran_def by auto

lemma tasks_keyed_stored:
  "tasks_keyed r \<Longrightarrow> (\<exists>t \<in> ran (tasks r). Task_ID t = k) \<longleftrightarrow> tasks r k \<noteq> None"
  unfolding tasks_keyed_def ran_def by auto

section \<open>The use cases that create entities\<close>

text \<open>\<open>Guardar\<close> and \<open>Save\<close> never fail, so the error branch of the four use cases is dead.\<close>

lemma CrearTarea_eq:
  "CrearTarea p r usuarioID titulo =
     ((\<lparr>Tarea_ID = generarID p, Tarea_UsuarioID = usuarioID, Tarea_Titulo = titulo,
        Tarea_Estado = Pendiente\<rparr>, None),
      r\<lparr>tareas := (tareas r)(generarID p \<mapsto>
        \<lparr>Tarea_ID = generarID p, Tarea_UsuarioID = usuarioID, Tarea_Titulo = titulo,
         Tarea_Estado = Pendiente\<rparr>)\<rparr>)"
  by (simp add: CrearTarea_def RepositorioTareaMem_Guardar_def Let_def)

lemma CreateTask_eq:
  "CreateTask p r userID title =
     ((\<lparr>Task_ID = generateID p, Task_UserID = userID, Task_Title = title,
        Task_Status = TaskPending\<rparr>, None),
      r\<lparr>tasks := (tasks r)(generateID p \<mapsto>
        \<lparr>Task_ID = generateID p, Task_UserID = userID, Task_Title = title,
         Task_Status = TaskPending\<rparr>)\<rparr>)"
  by (simp add: CreateTask_def InMemoryTaskRepo_Save_def Let_def)

lemma CrearUsuario_eq:
  "CrearUsuario p r nombre rol =
     ((\<lparr>Usuario_ID = generarID p, Usuario_Nombre = nombre, Usuario_Rol = rol\<rparr>, None),
      r\<lparr>usuarios := (usuarios r)(generarID p \<mapsto>
        \<lparr>Usuario_ID = generarID p, Usuario_Nombre = nombre, Usuario_Rol = rol\<rparr>)\<rparr>)"
  by (simp add: CrearUsuario_def RepositorioUsuarioMem_Guardar_def Let_def)

lemma CreateUser_eq:
  "CreateUser p r name =
     ((\<lparr>User_ID = generateID p, User_Name = name, User_Rol = []\<rparr>, None),
      r\<lparr>users := (users r)(generateID p \<mapsto>
        \<lparr>User_ID = generateID p, User_Name = name, User_Rol = []\<rparr>)\<rparr>)"
  by (simp add: CreateUser_def InMemoryUserRepo_Save_def Let_def)

lemma usuarios_keyed_CrearUsuario:
  "usuarios_keyed r \<Longrightarrow> usuarios_keyed (snd (CrearUsuario p r nombre rol))"
  by (simp add: usuarios_keyed_def CrearUsuario_def RepositorioUsuarioMem_Guardar_def Let_def)

lemma tareas_keyed_CrearTarea:
  "tareas_keyed r \<Longrightarrow> tareas_keyed (snd (CrearTarea p r usuarioID titulo))"
  by (simp add: tareas_keyed_def CrearTarea_def RepositorioTareaMem_Guardar_def Let_def)

lemma tasks_keyed_New: "tasks_keyed NewInMemoryTaskRepo"
  by (simp add: tasks_keyed_def NewInMemoryTaskRepo_def)

lemma tasks_keyed_Save:
  "tasks_keyed r \<Longrightarrow> tasks_keyed (snd (InMemoryTaskRepo_Save r t))"
  by (simp add: tasks_keyed_def InMemoryTaskRepo_Save_def)

lemma tasks_keyed_Update:
  "tasks_keyed r \<Longrightarrow> tasks_keyed (snd (InMemoryTaskRepo_Update r t))"
  by (simp add: tasks_keyed_def InMemoryTaskRepo_Update_def split: option.splits)

lemma tasks_keyed_CompleteTask:
  "tasks_keyed r \<Longrightarrow> tasks_keyed (snd (CompleteTask InMemoryTaskRepo_methods r k))"
  by (simp add: CompleteTask_def InMemoryTaskRepo_methods_def InMemoryTaskRepo_FindByID_def
      tasks_keyed_Update split: option.splits)

lemma tasks_keyed_CreateTask:
  "tasks_keyed r \<Longrightarrow> tasks_keyed (snd (CreateTask p r userID title))"
  by (simp add: tasks_keyed_def CreateTask_eq)

section \<open>Identifier generation\<close>

subsection \<open>The rendering is decimal\<close>

lemma digit_value_digit_char: "d < 10 \<Longrightarrow> digit_value (digit_char d) = d"
  by (simp add: digit_value_def digit_char_def)

lemma nat_of_decimal_snoc: "nat_of_decimal (s @ [c]) = 10 * nat_of_decimal s + digit_value c"
  by (simp add: nat_of_decimal_def)

lemma nat_of_decimal_decimal_nat: "nat_of_decimal (decimal_nat n) = n"
proof (induction n rule: decimal_nat.induct)
  case (1 n)
  show ?case
  proof (cases "n < 10")
    case True
    then show ?thesis
      by (subst decimal_nat.simps) (simp add: nat_of_decimal_def digit_value_digit_char)
  next
    case False
    with "1" have "nat_of_decimal (decimal_nat (n div 10)) = n div 10"
      by simp
    with False show ?thesis
      by (subst decimal_nat.simps) (simp add: nat_of_decimal_snoc digit_value_digit_char)
  qed
qed

lemma digit_char_not_minus: "digit_char d \<noteq> CHR ''-''"
  by (simp add: digit_char_def)

lemma decimal_nat_hd: "\<exists>c cs. decimal_nat n = c # cs \<and> c \<noteq> CHR ''-''"
proof (induction n rule: decimal_nat.induct)
  case (1 n)
  show ?case
  proof (cases "n < 10")
    case True
    then show ?thesis
      by (subst decimal_nat.simps) (simp add: digit_char_not_minus)
  next
    case False
    with "1" obtain c cs where "decimal_nat (n div 10) = c # cs" and "c \<noteq> CHR ''-''"
      by auto
    with False show ?thesis
      by (subst decimal_nat.simps) simp
  qed
qed

lemma int_of_decimal_Sprintf_d: "int_of_decimal (Sprintf_d w) = sint w"
proof (cases "sint w < 0")
  case True
  then show ?thesis
    by (simp add: Sprintf_d_def int_of_decimal_def nat_of_decimal_decimal_nat)
next
  case False
  obtain c cs where "decimal_nat (nat (sint w)) = c # cs" and "c \<noteq> CHR ''-''"
    using decimal_nat_hd by blast
  with False show ?thesis
    using nat_of_decimal_decimal_nat [of "nat (sint w)"]
    by (simp add: Sprintf_d_def int_of_decimal_def)
qed

subsection \<open>The rendering is the canonical numeral, and the only one\<close>

lemma is_digit_digit_char: "is_digit (digit_char d)"
  by (simp add: is_digit_def digit_char_def)

lemma digit_char_digit_value: "is_digit c \<Longrightarrow> digit_char (digit_value c) = c"
  by (auto simp: is_digit_def digit_char_def digit_value_def)

lemma digit_value_less: "is_digit c \<Longrightarrow> digit_value c < 10"
  by (auto simp: is_digit_def digit_value_def)

lemma digit_value_zero: "is_digit c \<Longrightarrow> digit_value c = 0 \<Longrightarrow> c = CHR ''0''"
  by (auto simp: is_digit_def digit_value_def)

lemma digit_char_zero: "d < 10 \<Longrightarrow> digit_char d = CHR ''0'' \<Longrightarrow> d = 0"
  by (auto simp: digit_char_def split: if_splits)

lemma decimal_nat_digits: "list_all is_digit (decimal_nat n)"
proof (induction n rule: decimal_nat.induct)
  case (1 n)
  show ?case
  proof (cases "n < 10")
    case True
    then show ?thesis
      by (subst decimal_nat.simps) (simp add: is_digit_digit_char)
  next
    case False
    with "1" show ?thesis
      by (subst decimal_nat.simps) (simp add: is_digit_digit_char)
  qed
qed

lemma decimal_nat_not_Nil: "decimal_nat n \<noteq> []"
  by (subst decimal_nat.simps) simp

lemma decimal_nat_hd_zero: "0 < n \<Longrightarrow> hd (decimal_nat n) \<noteq> CHR ''0''"
proof (induction n rule: decimal_nat.induct)
  case (1 n)
  show ?case
  proof (cases "n < 10")
    case True
    with "1.prems" show ?thesis
      using digit_char_zero [of n] by (subst decimal_nat.simps) auto
  next
    case False
    then have "0 < n div 10"
      by simp
    with "1.IH" False have "hd (decimal_nat (n div 10)) \<noteq> CHR ''0''"
      by simp
    with False show ?thesis
      by (subst decimal_nat.simps) (simp add: decimal_nat_not_Nil)
  qed
qed

lemma decimal_nat_length_one: "n < 10 \<Longrightarrow> length (decimal_nat n) = 1"
  by (subst decimal_nat.simps) simp

lemma decimal_numeral_decimal_nat: "decimal_numeral (decimal_nat n) n"
proof -
  have "1 < length (decimal_nat n) \<longrightarrow> hd (decimal_nat n) \<noteq> CHR ''0''"
  proof (cases "n < 10")
    case True
    then show ?thesis
      by (simp add: decimal_nat_length_one)
  next
    case False
    then show ?thesis
      by (simp add: decimal_nat_hd_zero)
  qed
  then show ?thesis
    by (simp add: decimal_numeral_def decimal_nat_not_Nil decimal_nat_digits
        nat_of_decimal_decimal_nat)
qed

lemma nat_of_decimal_pos:
  "ds \<noteq> [] \<Longrightarrow> list_all is_digit ds \<Longrightarrow> hd ds \<noteq> CHR ''0'' \<Longrightarrow> 0 < nat_of_decimal ds"
proof (induction ds rule: rev_induct)
  case Nil
  then show ?case by simp
next
  case (snoc c ds)
  show ?case
  proof (cases "ds = []")
    case True
    with snoc.prems have "is_digit c" and "c \<noteq> CHR ''0''"
      by simp_all
    then have "digit_value c \<noteq> 0"
      using digit_value_zero by blast
    with True show ?thesis
      by (simp add: nat_of_decimal_def)
  next
    case False
    with snoc have "0 < nat_of_decimal ds"
      by simp
    then show ?thesis
      by (simp add: nat_of_decimal_snoc)
  qed
qed

lemma decimal_numeral_unique: "decimal_numeral ds n \<Longrightarrow> ds = decimal_nat n"
proof (induction n arbitrary: ds rule: decimal_nat.induct)
  case (1 n)
  from "1.prems" have ne: "ds \<noteq> []" and dig: "list_all is_digit ds"
    and lead: "1 < length ds \<longrightarrow> hd ds \<noteq> CHR ''0''" and val: "nat_of_decimal ds = n"
    by (simp_all add: decimal_numeral_def)
  from ne obtain front c where ds: "ds = front @ [c]"
    by (cases ds rule: rev_cases) auto
  with dig have c: "is_digit c" and front: "list_all is_digit front"
    by simp_all
  from val ds have sum: "10 * nat_of_decimal front + digit_value c = n"
    by (simp add: nat_of_decimal_snoc)
  with digit_value_less [OF c] have last: "digit_value c = n mod 10"
    and rest: "nat_of_decimal front = n div 10"
    by auto
  have lead_front: "front \<noteq> [] \<Longrightarrow> hd front \<noteq> CHR ''0''"
    using lead ds by (cases front) auto
  show ?case
  proof (cases "n < 10")
    case True
    have "front = []"
    proof (rule ccontr)
      assume "front \<noteq> []"
      with front lead_front have "0 < nat_of_decimal front"
        by (simp add: nat_of_decimal_pos)
      with rest True show False
        by simp
    qed
    with ds last True c show ?thesis
      using digit_char_digit_value [OF c] by (subst decimal_nat.simps) simp
  next
    case False
    with rest have "front \<noteq> []"
      by (auto simp: nat_of_decimal_def)
    with front lead_front rest have "decimal_numeral front (n div 10)"
      by (simp add: decimal_numeral_def)
    with "1.IH" False have "front = decimal_nat (n div 10)"
      by simp
    with ds last False show ?thesis
      using digit_char_digit_value [OF c] by (subst decimal_nat.simps) simp
  qed
qed

lemma decimal_of_Sprintf_d: "decimal_of s (sint w) \<longleftrightarrow> s = Sprintf_d w"
proof (cases "sint w < 0")
  case True
  have "s \<noteq> [] \<and> hd s = CHR ''-'' \<and> decimal_numeral (tl s) (nat (- sint w))
          \<longleftrightarrow> s = CHR ''-'' # decimal_nat (nat (- sint w))"
    using decimal_numeral_unique [of "tl s" "nat (- sint w)"]
      decimal_numeral_decimal_nat [of "nat (- sint w)"]
    by (cases s) auto
  with True show ?thesis
    by (simp add: decimal_of_def Sprintf_d_def)
next
  case False
  have "decimal_numeral s (nat (sint w)) \<longleftrightarrow> s = decimal_nat (nat (sint w))"
    using decimal_numeral_unique decimal_numeral_decimal_nat by blast
  with False show ?thesis
    by (simp add: decimal_of_def Sprintf_d_def)
qed

subsection \<open>The sum does not wrap in the range of real identifiers\<close>

lemma sint_add_exact:
  fixes a b :: "64 word"
  assumes "- (2 ^ 63) \<le> sint a + sint b" and "sint a + sint b < 2 ^ 63"
  shows "sint (a + b) = sint a + sint b"
  using assms by (simp add: sint_word_add signed_take_bit_int_eq_self)

lemma sint_add5:
  fixes a b c d e :: "64 word"
  assumes "\<bar>sint a\<bar> < 2 ^ 32" "\<bar>sint b\<bar> < 2 ^ 32" "\<bar>sint c\<bar> < 2 ^ 32" "\<bar>sint d\<bar> < 2 ^ 32"
    "\<bar>sint e\<bar> < 2 ^ 32"
  shows "sint (a + b + c + d + e) = sint a + sint b + sint c + sint d + sint e"
proof -
  have ab: "sint (a + b) = sint a + sint b"
    using assms by (intro sint_add_exact) auto
  have abc: "sint (a + b + c) = sint a + sint b + sint c"
    using assms ab sint_add_exact [of "a + b" c] by auto
  have abcd: "sint (a + b + c + d) = sint a + sint b + sint c + sint d"
    using assms abc sint_add_exact [of "a + b + c" d] by auto
  show ?thesis
    using assms abcd sint_add_exact [of "a + b + c + d" e] by auto
qed

lemma sum_exact:
  "ids_in_range p \<Longrightarrow>
     sint (Getpid p + Getuid p + Geteuid p + Getppid p + Getegid p)
       = sint (Getpid p) + sint (Getuid p) + sint (Geteuid p) + sint (Getppid p) + sint (Getegid p)"
  unfolding ids_in_range_def by (intro sint_add5) simp_all

lemma generarID_sum:
  "ids_in_range p \<Longrightarrow>
     int_of_decimal (generarID p)
       = sint (Getpid p) + sint (Getuid p) + sint (Geteuid p) + sint (Getppid p) + sint (Getegid p)"
  unfolding generarID_def ids_in_range_def int_of_decimal_Sprintf_d
  by (intro sint_add5) simp_all

lemma generateID_sum:
  "ids_in_range p \<Longrightarrow>
     int_of_decimal (generateID p)
       = sint (Getpid p) + sint (Getuid p) + sint (Geteuid p) + sint (Getppid p) + sint (Getegid p)"
  unfolding generateID_def ids_in_range_def int_of_decimal_Sprintf_d
  by (intro sint_add5) simp_all


lemma generarID_run_os: "generarID run_os = ''11442''"
  by (simp add: generarID_def Sprintf_d_def run_os_def decimal_nat.simps digit_char_def)

lemma generateID_run_os: "generateID run_os = ''11442''"
  by (simp add: generateID_def Sprintf_d_def run_os_def decimal_nat.simps digit_char_def)

text \<open>
  C1. The identifier is a function of the five process numbers alone, so it is the same
  string at every call of a run. It is the decimal rendering of Go's sum of the five
  numbers and no other string is: a string \<open>s\<close> is the rendering of that sum exactly when
  \<open>s\<close> is the identifier. When each number is within 32 bits, Go's sum is the
  mathematical sum, and the same holds of it. Read back as a decimal number, the
  identifier is that sum. Hence two tasks (or two owners) created one after the other in
  one run get equal identifiers, both creations succeed, and the repository afterwards is
  the initial one with the single key \<open>generarID p\<close> bound to the second entity:
  looking up the first entity's identifier returns the second. The same holds for the
  English variant.
\<close>

theorem generated_id_constant_per_run:
  "(decimal_of s (sint (Getpid p + Getuid p + Geteuid p + Getppid p + Getegid p)) \<longleftrightarrow> s = generarID p)
   \<and> (decimal_of s (sint (Getpid p + Getuid p + Geteuid p + Getppid p + Getegid p)) \<longleftrightarrow> s = generateID p)
   \<and> (ids_in_range p \<longrightarrow>
        (decimal_of s (sint (Getpid p) + sint (Getuid p) + sint (Geteuid p) + sint (Getppid p)
            + sint (Getegid p))
           \<longleftrightarrow> s = generarID p)
        \<and> (decimal_of s (sint (Getpid p) + sint (Getuid p) + sint (Geteuid p) + sint (Getppid p)
            + sint (Getegid p))
           \<longleftrightarrow> s = generateID p))
   \<and> int_of_decimal (generarID p)
     = sint (Getpid p + Getuid p + Geteuid p + Getppid p + Getegid p)
   \<and> int_of_decimal (generateID p)
     = sint (Getpid p + Getuid p + Geteuid p + Getppid p + Getegid p)
   \<and> (ids_in_range p \<longrightarrow>
        int_of_decimal (generarID p)
          = sint (Getpid p) + sint (Getuid p) + sint (Geteuid p) + sint (Getppid p)
            + sint (Getegid p)
        \<and> int_of_decimal (generateID p)
          = sint (Getpid p) + sint (Getuid p) + sint (Geteuid p) + sint (Getppid p)
            + sint (Getegid p))
   \<and> (CrearTarea p ra ua na = ((ta, ea), rb) \<and> CrearTarea p rb ub nb = ((tb, eb), rc) \<longrightarrow>
        ea = None \<and> eb = None \<and> Tarea_ID ta = generarID p \<and> Tarea_ID tb = Tarea_ID ta
        \<and> tareas rc = (tareas ra)(generarID p \<mapsto> tb)
        \<and> RepositorioTareaMem_BuscarPorID rc (Tarea_ID ta) = (tb, None))
   \<and> (CrearUsuario p sa aa ba = ((va, fa), sb) \<and> CrearUsuario p sb ab bb = ((vb, fb), sc) \<longrightarrow>
        fa = None \<and> fb = None \<and> Usuario_ID va = generarID p \<and> Usuario_ID vb = Usuario_ID va
        \<and> usuarios sc = (usuarios sa)(generarID p \<mapsto> vb)
        \<and> RepositorioUsuarioMem_BuscarPorID sc (Usuario_ID va) = (vb, None))
   \<and> (CreateTask p ra' ua na = ((ta', ea'), rb') \<and> CreateTask p rb' ub nb = ((tb', eb'), rc') \<longrightarrow>
        ea' = None \<and> eb' = None \<and> Task_ID ta' = generateID p \<and> Task_ID tb' = Task_ID ta'
        \<and> tasks rc' = (tasks ra')(generateID p \<mapsto> tb')
        \<and> InMemoryTaskRepo_FindByID rc' (Task_ID ta') = (tb', None))
   \<and> (CreateUser p sa' aa = ((va', fa'), sb') \<and> CreateUser p sb' ab = ((vb', fb'), sc') \<longrightarrow>
        fa' = None \<and> fb' = None \<and> User_ID va' = generateID p \<and> User_ID vb' = User_ID va'
        \<and> users sc' = (users sa')(generateID p \<mapsto> vb')
        \<and> InMemoryUserRepo_FindByID sc' (User_ID va') = (vb', None))"
proof -
  have canon: "decimal_of s (sint (Getpid p + Getuid p + Geteuid p + Getppid p + Getegid p)) \<longleftrightarrow> s = generarID p"
    "decimal_of s (sint (Getpid p + Getuid p + Geteuid p + Getppid p + Getegid p)) \<longleftrightarrow> s = generateID p"
    by (simp_all add: generarID_def generateID_def decimal_of_Sprintf_d)
  have canon_exact: "ids_in_range p \<longrightarrow>
        (decimal_of s (sint (Getpid p) + sint (Getuid p) + sint (Geteuid p) + sint (Getppid p)
            + sint (Getegid p))
           \<longleftrightarrow> s = generarID p)
        \<and> (decimal_of s (sint (Getpid p) + sint (Getuid p) + sint (Geteuid p) + sint (Getppid p)
            + sint (Getegid p))
           \<longleftrightarrow> s = generateID p)"
  proof
    assume "ids_in_range p"
    then show "(decimal_of s (sint (Getpid p) + sint (Getuid p) + sint (Geteuid p) + sint (Getppid p)
            + sint (Getegid p))
           \<longleftrightarrow> s = generarID p)
        \<and> (decimal_of s (sint (Getpid p) + sint (Getuid p) + sint (Geteuid p) + sint (Getppid p)
            + sint (Getegid p))
           \<longleftrightarrow> s = generateID p)"
      using canon by (simp only: sum_exact simp_thms)
  qed
  have wrap: "int_of_decimal (generarID p)
       = sint (Getpid p + Getuid p + Geteuid p + Getppid p + Getegid p)"
    "int_of_decimal (generateID p)
       = sint (Getpid p + Getuid p + Geteuid p + Getppid p + Getegid p)"
    by (simp_all add: generarID_def generateID_def int_of_decimal_Sprintf_d)
  have exact: "ids_in_range p \<longrightarrow>
        int_of_decimal (generarID p)
          = sint (Getpid p) + sint (Getuid p) + sint (Geteuid p) + sint (Getppid p)
            + sint (Getegid p)
        \<and> int_of_decimal (generateID p)
          = sint (Getpid p) + sint (Getuid p) + sint (Geteuid p) + sint (Getppid p)
            + sint (Getegid p)"
    using generarID_sum generateID_sum by blast
  have tareas: "CrearTarea p ra ua na = ((ta, ea), rb) \<and> CrearTarea p rb ub nb = ((tb, eb), rc) \<longrightarrow>
        ea = None \<and> eb = None \<and> Tarea_ID ta = generarID p \<and> Tarea_ID tb = Tarea_ID ta
        \<and> tareas rc = (tareas ra)(generarID p \<mapsto> tb)
        \<and> RepositorioTareaMem_BuscarPorID rc (Tarea_ID ta) = (tb, None)"
    by (auto simp: CrearTarea_eq RepositorioTareaMem_BuscarPorID_def)
  have usuarios: "CrearUsuario p sa aa ba = ((va, fa), sb) \<and> CrearUsuario p sb ab bb = ((vb, fb), sc) \<longrightarrow>
        fa = None \<and> fb = None \<and> Usuario_ID va = generarID p \<and> Usuario_ID vb = Usuario_ID va
        \<and> usuarios sc = (usuarios sa)(generarID p \<mapsto> vb)
        \<and> RepositorioUsuarioMem_BuscarPorID sc (Usuario_ID va) = (vb, None)"
    by (auto simp: CrearUsuario_eq RepositorioUsuarioMem_BuscarPorID_def)
  have tasks: "CreateTask p ra' ua na = ((ta', ea'), rb') \<and> CreateTask p rb' ub nb = ((tb', eb'), rc') \<longrightarrow>
        ea' = None \<and> eb' = None \<and> Task_ID ta' = generateID p \<and> Task_ID tb' = Task_ID ta'
        \<and> tasks rc' = (tasks ra')(generateID p \<mapsto> tb')
        \<and> InMemoryTaskRepo_FindByID rc' (Task_ID ta') = (tb', None)"
    by (auto simp: CreateTask_eq InMemoryTaskRepo_FindByID_def)
  have users: "CreateUser p sa' aa = ((va', fa'), sb') \<and> CreateUser p sb' ab = ((vb', fb'), sc') \<longrightarrow>
        fa' = None \<and> fb' = None \<and> User_ID va' = generateID p \<and> User_ID vb' = User_ID va'
        \<and> users sc' = (users sa')(generateID p \<mapsto> vb')
        \<and> InMemoryUserRepo_FindByID sc' (User_ID va') = (vb', None)"
    by (auto simp: CreateUser_eq InMemoryUserRepo_FindByID_def)
  show ?thesis
    by (intro conjI canon canon_exact wrap exact tareas usuarios tasks users)
qed

text \<open>
  The run with process numbers 4242, 1000, 1000, 4200 and 1000: the identifier is
  \<open>11442\<close>, the rendering of the sum, which \<open>+11442\<close> and \<open>011442\<close> are not; it is
  the identifier of both creations, and the second overwrites the first.
\<close>

theorem generated_id_constant_per_run_witness:
  "ids_in_range run_os
   \<and> generarID run_os = ''11442''
   \<and> decimal_of ''11442'' 11442
   \<and> \<not> decimal_of ''+11442'' 11442
   \<and> \<not> decimal_of ''011442'' 11442
   \<and> int_of_decimal (generarID run_os) = 11442
   \<and> CrearTarea run_os NuevoRepositorioTareaMem ''11442'' ''Buy milk''
       = ((\<lparr>Tarea_ID = ''11442'', Tarea_UsuarioID = ''11442'', Tarea_Titulo = ''Buy milk'',
            Tarea_Estado = ''Pendiente''\<rparr>, None),
          \<lparr>tareas = [''11442'' \<mapsto> \<lparr>Tarea_ID = ''11442'', Tarea_UsuarioID = ''11442'',
             Tarea_Titulo = ''Buy milk'', Tarea_Estado = ''Pendiente''\<rparr>]\<rparr>)
   \<and> CrearTarea run_os
        \<lparr>tareas = [''11442'' \<mapsto> \<lparr>Tarea_ID = ''11442'', Tarea_UsuarioID = ''11442'',
           Tarea_Titulo = ''Buy milk'', Tarea_Estado = ''Pendiente''\<rparr>]\<rparr> ''11442'' ''Buy bread''
       = ((\<lparr>Tarea_ID = ''11442'', Tarea_UsuarioID = ''11442'', Tarea_Titulo = ''Buy bread'',
            Tarea_Estado = ''Pendiente''\<rparr>, None),
          \<lparr>tareas = [''11442'' \<mapsto> \<lparr>Tarea_ID = ''11442'', Tarea_UsuarioID = ''11442'',
             Tarea_Titulo = ''Buy bread'', Tarea_Estado = ''Pendiente''\<rparr>]\<rparr>)
   \<and> RepositorioTareaMem_BuscarPorID
        \<lparr>tareas = [''11442'' \<mapsto> \<lparr>Tarea_ID = ''11442'', Tarea_UsuarioID = ''11442'',
           Tarea_Titulo = ''Buy bread'', Tarea_Estado = ''Pendiente''\<rparr>]\<rparr> ''11442''
       = (\<lparr>Tarea_ID = ''11442'', Tarea_UsuarioID = ''11442'', Tarea_Titulo = ''Buy bread'',
           Tarea_Estado = ''Pendiente''\<rparr>, None)
   \<and> CrearUsuario run_os NuevoRepositorioUsuarioMem ''Alice'' ''admin''
       = ((\<lparr>Usuario_ID = ''11442'', Usuario_Nombre = ''Alice'', Usuario_Rol = ''admin''\<rparr>, None),
          \<lparr>usuarios = [''11442'' \<mapsto>
             \<lparr>Usuario_ID = ''11442'', Usuario_Nombre = ''Alice'', Usuario_Rol = ''admin''\<rparr>]\<rparr>)
   \<and> CrearUsuario run_os
        \<lparr>usuarios = [''11442'' \<mapsto>
           \<lparr>Usuario_ID = ''11442'', Usuario_Nombre = ''Alice'', Usuario_Rol = ''admin''\<rparr>]\<rparr>
        ''Bob'' ''user''
       = ((\<lparr>Usuario_ID = ''11442'', Usuario_Nombre = ''Bob'', Usuario_Rol = ''user''\<rparr>, None),
          \<lparr>usuarios = [''11442'' \<mapsto>
             \<lparr>Usuario_ID = ''11442'', Usuario_Nombre = ''Bob'', Usuario_Rol = ''user''\<rparr>]\<rparr>)
   \<and> RepositorioUsuarioMem_BuscarPorID
        \<lparr>usuarios = [''11442'' \<mapsto>
           \<lparr>Usuario_ID = ''11442'', Usuario_Nombre = ''Bob'', Usuario_Rol = ''user''\<rparr>]\<rparr> ''11442''
       = (\<lparr>Usuario_ID = ''11442'', Usuario_Nombre = ''Bob'', Usuario_Rol = ''user''\<rparr>, None)
   \<and> CreateTask run_os NewInMemoryTaskRepo ''11442'' ''Buy milk''
       = ((\<lparr>Task_ID = ''11442'', Task_UserID = ''11442'', Task_Title = ''Buy milk'',
            Task_Status = ''Pendiente''\<rparr>, None),
          \<lparr>tasks = [''11442'' \<mapsto> \<lparr>Task_ID = ''11442'', Task_UserID = ''11442'',
             Task_Title = ''Buy milk'', Task_Status = ''Pendiente''\<rparr>]\<rparr>)
   \<and> CreateTask run_os
        \<lparr>tasks = [''11442'' \<mapsto> \<lparr>Task_ID = ''11442'', Task_UserID = ''11442'',
           Task_Title = ''Buy milk'', Task_Status = ''Pendiente''\<rparr>]\<rparr> ''11442'' ''Buy bread''
       = ((\<lparr>Task_ID = ''11442'', Task_UserID = ''11442'', Task_Title = ''Buy bread'',
            Task_Status = ''Pendiente''\<rparr>, None),
          \<lparr>tasks = [''11442'' \<mapsto> \<lparr>Task_ID = ''11442'', Task_UserID = ''11442'',
             Task_Title = ''Buy bread'', Task_Status = ''Pendiente''\<rparr>]\<rparr>)
   \<and> InMemoryTaskRepo_FindByID
        \<lparr>tasks = [''11442'' \<mapsto> \<lparr>Task_ID = ''11442'', Task_UserID = ''11442'',
           Task_Title = ''Buy bread'', Task_Status = ''Pendiente''\<rparr>]\<rparr> ''11442''
       = (\<lparr>Task_ID = ''11442'', Task_UserID = ''11442'', Task_Title = ''Buy bread'',
           Task_Status = ''Pendiente''\<rparr>, None)
   \<and> CreateUser run_os NewInMemoryUserRepo ''Alice''
       = ((\<lparr>User_ID = ''11442'', User_Name = ''Alice'', User_Rol = []\<rparr>, None),
          \<lparr>users = [''11442'' \<mapsto> \<lparr>User_ID = ''11442'', User_Name = ''Alice'', User_Rol = []\<rparr>]\<rparr>)
   \<and> CreateUser run_os
        \<lparr>users = [''11442'' \<mapsto> \<lparr>User_ID = ''11442'', User_Name = ''Alice'', User_Rol = []\<rparr>]\<rparr>
        ''Bob''
       = ((\<lparr>User_ID = ''11442'', User_Name = ''Bob'', User_Rol = []\<rparr>, None),
          \<lparr>users = [''11442'' \<mapsto> \<lparr>User_ID = ''11442'', User_Name = ''Bob'', User_Rol = []\<rparr>]\<rparr>)
   \<and> InMemoryUserRepo_FindByID
        \<lparr>users = [''11442'' \<mapsto> \<lparr>User_ID = ''11442'', User_Name = ''Bob'', User_Rol = []\<rparr>]\<rparr>
        ''11442''
       = (\<lparr>User_ID = ''11442'', User_Name = ''Bob'', User_Rol = []\<rparr>, None)"
  (is "?range \<and> ?id \<and> ?canon \<and> ?plus \<and> ?zero \<and> ?sum \<and> ?ta \<and> ?tb \<and> ?tc \<and> ?ua \<and> ?ub \<and> ?uc \<and> ?ka \<and> ?kb \<and> ?kc \<and> ?va \<and> ?vb \<and> ?vc")
proof -
  have range: ?range
    by (simp add: ids_in_range_def run_os_def)
  have ta: ?ta and tb: ?tb
    by (simp_all add: CrearTarea_eq generarID_run_os NuevoRepositorioTareaMem_def Pendiente_def)
  have ua: ?ua and ub: ?ub
    by (simp_all add: CrearUsuario_eq generarID_run_os NuevoRepositorioUsuarioMem_def)
  have ka: ?ka and kb: ?kb
    by (simp_all add: CreateTask_eq generateID_run_os NewInMemoryTaskRepo_def TaskPending_def)
  have va: ?va and vb: ?vb
    by (simp_all add: CreateUser_eq generateID_run_os NewInMemoryUserRepo_def)
  have id: ?id
    by (rule generarID_run_os)
  have total: "sint (Getpid run_os) + sint (Getuid run_os) + sint (Geteuid run_os)
      + sint (Getppid run_os) + sint (Getegid run_os) = 11442"
    by (simp add: run_os_def)
  note c = generated_id_constant_per_run [where p = run_os, THEN conjunct2, THEN conjunct2,
      THEN conjunct1, rule_format, OF range, THEN conjunct1, unfolded total id]
  have canon: ?canon
    using c [of "''11442''"] by simp
  have plus: ?plus
    using c [of "''+11442''"] by simp
  have zero: ?zero
    using c [of "''011442''"] by simp
  note w = generated_id_constant_per_run [where p = run_os, THEN conjunct2, THEN conjunct2,
      THEN conjunct2]
  have sum: ?sum
    using w [THEN conjunct2, THEN conjunct2, THEN conjunct1, rule_format, OF range, THEN conjunct1]
    by (simp add: run_os_def)
  have tc: ?tc
    using w [THEN conjunct2, THEN conjunct2, THEN conjunct2, THEN conjunct1, rule_format,
        OF conjI [OF ta tb], THEN conjunct2, THEN conjunct2, THEN conjunct2,
        THEN conjunct2, THEN conjunct2]
    by simp
  have uc: ?uc
    using w [THEN conjunct2, THEN conjunct2, THEN conjunct2, THEN conjunct2, THEN conjunct1,
        rule_format, OF conjI [OF ua ub], THEN conjunct2, THEN conjunct2, THEN conjunct2,
        THEN conjunct2, THEN conjunct2]
    by simp
  have kc: ?kc
    using w [THEN conjunct2, THEN conjunct2, THEN conjunct2, THEN conjunct2, THEN conjunct2,
        THEN conjunct1, rule_format, OF conjI [OF ka kb], THEN conjunct2, THEN conjunct2, THEN conjunct2,
        THEN conjunct2, THEN conjunct2]
    by simp
  have vc: ?vc
    using w [THEN conjunct2, THEN conjunct2, THEN conjunct2, THEN conjunct2, THEN conjunct2,
        THEN conjunct2, rule_format, OF conjI [OF va vb], THEN conjunct2, THEN conjunct2, THEN conjunct2,
        THEN conjunct2, THEN conjunct2]
    by simp
  show ?thesis
    by (intro conjI range id canon plus zero sum ta tb tc ua ub uc ka kb kc va vb vc)
qed

section \<open>Completing a task\<close>

text \<open>
  Against a recording repository, a use case that finds the task makes exactly two calls,
  whatever the status of the task found: the lookup, then the update with the status set.
\<close>

lemma FinalizarTarea_calls:
  "RepositorioTarea_BuscarPorID repo s k = ((tarea, None), s') \<Longrightarrow>
   RepositorioTarea_Actualizar repo s' (tarea\<lparr>Tarea_Estado := Finalizada\<rparr>) = (err, s'') \<Longrightarrow>
     FinalizarTarea (recording_RepositorioTarea repo) (s, calls) k
       = (err, (s'', calls @ [Call_BuscarPorID k,
            Call_Actualizar (tarea\<lparr>Tarea_Estado := Finalizada\<rparr>)]))"
  by (simp add: FinalizarTarea_def recording_RepositorioTarea_def)

lemma CompleteTask_calls:
  "TaskRepository_FindByID repo s k = ((task, None), s') \<Longrightarrow>
   TaskRepository_Update repo s' (task\<lparr>Task_Status := TaskCompleted\<rparr>) = (err, s'') \<Longrightarrow>
     CompleteTask (recording_TaskRepository repo) (s, calls) k
       = (err, (s'', calls @ [Call_FindByID k,
            Call_Update (task\<lparr>Task_Status := TaskCompleted\<rparr>)]))"
  by (simp add: CompleteTask_def recording_TaskRepository_def)



section \<open>Updating a task\<close>

lemma Actualizar_absent:
  "tareas r (Tarea_ID t) = None \<Longrightarrow>
     RepositorioTareaMem_Actualizar r t = (Some (Errorf ''tarea no encontrada''), r)"
  by (simp add: RepositorioTareaMem_Actualizar_def)

lemma Actualizar_present:
  "tareas r (Tarea_ID t) = Some old \<Longrightarrow>
     RepositorioTareaMem_Actualizar r t = (None, r\<lparr>tareas := (tareas r)(Tarea_ID t \<mapsto> t)\<rparr>)"
  by (simp add: RepositorioTareaMem_Actualizar_def)

lemma Update_absent:
  "tasks r (Task_ID t) = None \<Longrightarrow>
     InMemoryTaskRepo_Update r t = (Some (Errorf ''tarea no encontrada''), r)"
  by (simp add: InMemoryTaskRepo_Update_def)

lemma Update_present:
  "tasks r (Task_ID t) = Some old \<Longrightarrow>
     InMemoryTaskRepo_Update r t = (None, r\<lparr>tasks := (tasks r)(Task_ID t \<mapsto> t)\<rparr>)"
  by (simp add: InMemoryTaskRepo_Update_def)

text \<open>
  C3. \<open>Actualizar\<close> returns the not-found error and the repository as it was when the
  key \<open>Tarea_ID t\<close> is unbound. When the key is bound it succeeds, the key is rebound to
  exactly \<open>t\<close> and a lookup returns \<open>t\<close> whole. In a repository keyed by identifier the
  failure occurs exactly when no stored task has the identifier of \<open>t\<close>. The same holds
  for \<open>Update\<close>.
\<close>

theorem update_not_found_or_replace:
  "(tareas r (Tarea_ID t) = None \<longrightarrow>
      RepositorioTareaMem_Actualizar r t = (Some (Errorf ''tarea no encontrada''), r))
   \<and> (tareas r (Tarea_ID t) \<noteq> None \<longrightarrow>
        RepositorioTareaMem_Actualizar r t = (None, r\<lparr>tareas := (tareas r)(Tarea_ID t \<mapsto> t)\<rparr>)
        \<and> RepositorioTareaMem_BuscarPorID (snd (RepositorioTareaMem_Actualizar r t)) (Tarea_ID t)
            = (t, None))
   \<and> (tareas_keyed r \<longrightarrow>
        (fst (RepositorioTareaMem_Actualizar r t) = Some (Errorf ''tarea no encontrada''))
          = (\<not> (\<exists>t' \<in> ran (tareas r). Tarea_ID t' = Tarea_ID t)))
   \<and> (tasks r' (Task_ID t') = None \<longrightarrow>
        InMemoryTaskRepo_Update r' t' = (Some (Errorf ''tarea no encontrada''), r'))
   \<and> (tasks r' (Task_ID t') \<noteq> None \<longrightarrow>
        InMemoryTaskRepo_Update r' t' = (None, r'\<lparr>tasks := (tasks r')(Task_ID t' \<mapsto> t')\<rparr>)
        \<and> InMemoryTaskRepo_FindByID (snd (InMemoryTaskRepo_Update r' t')) (Task_ID t')
            = (t', None))
   \<and> (tasks_keyed r' \<longrightarrow>
        (fst (InMemoryTaskRepo_Update r' t') = Some (Errorf ''tarea no encontrada''))
          = (\<not> (\<exists>t'' \<in> ran (tasks r'). Task_ID t'' = Task_ID t')))"
proof -
  have es: "tareas r (Tarea_ID t) \<noteq> None \<longrightarrow>
        RepositorioTareaMem_Actualizar r t = (None, r\<lparr>tareas := (tareas r)(Tarea_ID t \<mapsto> t)\<rparr>)
        \<and> RepositorioTareaMem_BuscarPorID (snd (RepositorioTareaMem_Actualizar r t)) (Tarea_ID t)
            = (t, None)"
    by (auto simp: Actualizar_present RepositorioTareaMem_BuscarPorID_def)
  have en: "tasks r' (Task_ID t') \<noteq> None \<longrightarrow>
        InMemoryTaskRepo_Update r' t' = (None, r'\<lparr>tasks := (tasks r')(Task_ID t' \<mapsto> t')\<rparr>)
        \<and> InMemoryTaskRepo_FindByID (snd (InMemoryTaskRepo_Update r' t')) (Task_ID t')
            = (t', None)"
    by (auto simp: Update_present InMemoryTaskRepo_FindByID_def)
  have ks: "tareas_keyed r \<longrightarrow>
        (fst (RepositorioTareaMem_Actualizar r t) = Some (Errorf ''tarea no encontrada''))
          = (\<not> (\<exists>t' \<in> ran (tareas r). Tarea_ID t' = Tarea_ID t))"
    by (simp add: tareas_keyed_stored RepositorioTareaMem_Actualizar_def split: option.splits)
  have kn: "tasks_keyed r' \<longrightarrow>
        (fst (InMemoryTaskRepo_Update r' t') = Some (Errorf ''tarea no encontrada''))
          = (\<not> (\<exists>t'' \<in> ran (tasks r'). Task_ID t'' = Task_ID t'))"
    by (simp add: tasks_keyed_stored InMemoryTaskRepo_Update_def split: option.splits)
  have as: "tareas r (Tarea_ID t) = None \<longrightarrow>
      RepositorioTareaMem_Actualizar r t = (Some (Errorf ''tarea no encontrada''), r)"
    by (simp add: Actualizar_absent)
  have an: "tasks r' (Task_ID t') = None \<longrightarrow>
        InMemoryTaskRepo_Update r' t' = (Some (Errorf ''tarea no encontrada''), r')"
    by (simp add: Update_absent)
  show ?thesis
    by (intro conjI as es ks an en kn)
qed

text \<open>Retitling the stored task succeeds; updating under an unknown identifier fails.\<close>

theorem update_not_found_or_replace_witness:
  "tareas \<lparr>tareas = [''7'' \<mapsto> milk]\<rparr> (Tarea_ID (milk\<lparr>Tarea_Titulo := ''Buy bread''\<rparr>)) \<noteq> None
   \<and> tareas_keyed \<lparr>tareas = [''7'' \<mapsto> milk]\<rparr>
   \<and> RepositorioTareaMem_Actualizar \<lparr>tareas = [''7'' \<mapsto> milk]\<rparr> (milk\<lparr>Tarea_Titulo := ''Buy bread''\<rparr>)
       = (None, \<lparr>tareas = [''7'' \<mapsto> milk\<lparr>Tarea_Titulo := ''Buy bread''\<rparr>]\<rparr>)
   \<and> tareas \<lparr>tareas = [''7'' \<mapsto> milk]\<rparr> (Tarea_ID (milk\<lparr>Tarea_ID := ''8''\<rparr>)) = None
   \<and> RepositorioTareaMem_Actualizar \<lparr>tareas = [''7'' \<mapsto> milk]\<rparr> (milk\<lparr>Tarea_ID := ''8''\<rparr>)
       = (Some (Errorf ''tarea no encontrada''), \<lparr>tareas = [''7'' \<mapsto> milk]\<rparr>)
   \<and> tasks \<lparr>tasks = [''7'' \<mapsto> milk_en]\<rparr> (Task_ID (milk_en\<lparr>Task_Title := ''Buy bread''\<rparr>)) \<noteq> None
   \<and> tasks_keyed \<lparr>tasks = [''7'' \<mapsto> milk_en]\<rparr>
   \<and> InMemoryTaskRepo_Update \<lparr>tasks = [''7'' \<mapsto> milk_en]\<rparr> (milk_en\<lparr>Task_Title := ''Buy bread''\<rparr>)
       = (None, \<lparr>tasks = [''7'' \<mapsto> milk_en\<lparr>Task_Title := ''Buy bread''\<rparr>]\<rparr>)
   \<and> tasks \<lparr>tasks = [''7'' \<mapsto> milk_en]\<rparr> (Task_ID (milk_en\<lparr>Task_ID := ''8''\<rparr>)) = None
   \<and> InMemoryTaskRepo_Update \<lparr>tasks = [''7'' \<mapsto> milk_en]\<rparr> (milk_en\<lparr>Task_ID := ''8''\<rparr>)
       = (Some (Errorf ''tarea no encontrada''), \<lparr>tasks = [''7'' \<mapsto> milk_en]\<rparr>)"
  using
    update_not_found_or_replace [of "\<lparr>tareas = [''7'' \<mapsto> milk]\<rparr>" "milk\<lparr>Tarea_Titulo := ''Buy bread''\<rparr>"
      "\<lparr>tasks = [''7'' \<mapsto> milk_en]\<rparr>" "milk_en\<lparr>Task_Title := ''Buy bread''\<rparr>"]
    update_not_found_or_replace [of "\<lparr>tareas = [''7'' \<mapsto> milk]\<rparr>" "milk\<lparr>Tarea_ID := ''8''\<rparr>"
      "\<lparr>tasks = [''7'' \<mapsto> milk_en]\<rparr>" "milk_en\<lparr>Task_ID := ''8''\<rparr>"]
  by (simp add: tareas_keyed_def tasks_keyed_def milk_def milk_en_def)

section \<open>Listing the tasks of an owner\<close>

text \<open>The loop appends, in the order of visit, the tasks of the keys that pass the test.\<close>

lemma ListarPorUsuario_range_filter:
  "RepositorioTareaMem_ListarPorUsuario_range m usuarioID ks acc =
     acc @ map (the \<circ> m)
       (filter (\<lambda>k. case m k of None \<Rightarrow> False | Some t \<Rightarrow> Tarea_UsuarioID t = usuarioID) ks)"
  by (induction ks arbitrary: acc) (auto split: option.splits)

lemma ListByUser_range_filter:
  "InMemoryTaskRepo_ListByUser_range m userID ks acc =
     acc @ map (the \<circ> m)
       (filter (\<lambda>k. case m k of None \<Rightarrow> False | Some t \<Rightarrow> Task_UserID t = userID) ks)"
  by (induction ks arbitrary: acc) (auto split: option.splits)

lemma listed_set:
  assumes "set ks = dom m"
  shows "set (map (the \<circ> m) (filter (\<lambda>k. case m k of None \<Rightarrow> False | Some t \<Rightarrow> P t) ks))
           = {t \<in> ran m. P t}"
proof -
  have "set (map (the \<circ> m) (filter (\<lambda>k. case m k of None \<Rightarrow> False | Some t \<Rightarrow> P t) ks))
          = {t. \<exists>k \<in> set ks. m k = Some t \<and> P t}"
    by (force split: option.splits simp: image_iff)
  also have "\<dots> = {t \<in> ran m. P t}"
    using assms by (auto simp: ran_def dom_def)
  finally show ?thesis .
qed

lemma listed_length:
  assumes "distinct ks" and "set ks = dom m"
  shows "length (map (the \<circ> m) (filter (\<lambda>k. case m k of None \<Rightarrow> False | Some t \<Rightarrow> P t) ks))
           = card {k. \<exists>t. m k = Some t \<and> P t}"
proof -
  have "{k. case m k of None \<Rightarrow> False | Some t \<Rightarrow> P t} \<inter> set ks = {k. \<exists>t. m k = Some t \<and> P t}"
    using assms(2) by (auto split: option.splits)
  then show ?thesis
    using assms(1) by (simp add: distinct_length_filter)
qed

text \<open>
  C4. Whatever order the keys are visited in, as long as the keys visited are the keys of
  the map, the tasks listed for an owner are exactly the stored tasks with that
  owner-identifier: every listed task is stored and has it, and every stored task that has
  it is listed. When no key is visited twice, the list has one element for each such key.
  The use case \<open>ListarTareas\<close> returns the same list. The same holds for \<open>ListByUser\<close>
  and \<open>ListTasks\<close>.
\<close>

theorem list_by_owner_exact:
  "(set orden = dom (tareas r) \<longrightarrow>
      set (RepositorioTareaMem_ListarPorUsuario orden r usuarioID)
        = {t \<in> ran (tareas r). Tarea_UsuarioID t = usuarioID}
      \<and> set (ListarTareas orden r usuarioID)
        = {t \<in> ran (tareas r). Tarea_UsuarioID t = usuarioID})
   \<and> (distinct orden \<and> set orden = dom (tareas r) \<longrightarrow>
        length (RepositorioTareaMem_ListarPorUsuario orden r usuarioID)
          = card {k. \<exists>t. tareas r k = Some t \<and> Tarea_UsuarioID t = usuarioID})
   \<and> (set order = dom (tasks r') \<longrightarrow>
        set (InMemoryTaskRepo_ListByUser order r' userID)
          = {t \<in> ran (tasks r'). Task_UserID t = userID}
        \<and> set (ListTasks order r' userID)
          = {t \<in> ran (tasks r'). Task_UserID t = userID})
   \<and> (distinct order \<and> set order = dom (tasks r') \<longrightarrow>
        length (InMemoryTaskRepo_ListByUser order r' userID)
          = card {k. \<exists>t. tasks r' k = Some t \<and> Task_UserID t = userID})"
proof -
  have s1: "set orden = dom (tareas r) \<longrightarrow>
      set (RepositorioTareaMem_ListarPorUsuario orden r usuarioID)
        = {t \<in> ran (tareas r). Tarea_UsuarioID t = usuarioID}
      \<and> set (ListarTareas orden r usuarioID)
        = {t \<in> ran (tareas r). Tarea_UsuarioID t = usuarioID}"
    unfolding ListarTareas_def RepositorioTareaMem_ListarPorUsuario_def
      ListarPorUsuario_range_filter
    using listed_set [of orden "tareas r" "\<lambda>t. Tarea_UsuarioID t = usuarioID"] by simp
  have s2: "distinct orden \<and> set orden = dom (tareas r) \<longrightarrow>
        length (RepositorioTareaMem_ListarPorUsuario orden r usuarioID)
          = card {k. \<exists>t. tareas r k = Some t \<and> Tarea_UsuarioID t = usuarioID}"
    unfolding RepositorioTareaMem_ListarPorUsuario_def ListarPorUsuario_range_filter
    using listed_length [of orden "tareas r" "\<lambda>t. Tarea_UsuarioID t = usuarioID"] by simp
  have e1: "set order = dom (tasks r') \<longrightarrow>
        set (InMemoryTaskRepo_ListByUser order r' userID)
          = {t \<in> ran (tasks r'). Task_UserID t = userID}
        \<and> set (ListTasks order r' userID)
          = {t \<in> ran (tasks r'). Task_UserID t = userID}"
    unfolding ListTasks_def InMemoryTaskRepo_ListByUser_def ListByUser_range_filter
    using listed_set [of order "tasks r'" "\<lambda>t. Task_UserID t = userID"] by simp
  have e2: "distinct order \<and> set order = dom (tasks r') \<longrightarrow>
        length (InMemoryTaskRepo_ListByUser order r' userID)
          = card {k. \<exists>t. tasks r' k = Some t \<and> Task_UserID t = userID}"
    unfolding InMemoryTaskRepo_ListByUser_def ListByUser_range_filter
    using listed_length [of order "tasks r'" "\<lambda>t. Task_UserID t = userID"] by simp
  show ?thesis
    by (intro conjI s1 s2 e1 e2)
qed

text \<open>Two tasks of two owners, visited in the order opposite to their insertion.\<close>

theorem list_by_owner_exact_witness:
  "distinct [''8'', ''7''] \<and> set [''8'', ''7''] = dom (tareas \<lparr>tareas = [''7'' \<mapsto> milk, ''8'' \<mapsto> bread]\<rparr>)
   \<and> RepositorioTareaMem_ListarPorUsuario [''8'', ''7'']
         \<lparr>tareas = [''7'' \<mapsto> milk, ''8'' \<mapsto> bread]\<rparr> ''7'' = [milk]
   \<and> set (RepositorioTareaMem_ListarPorUsuario [''8'', ''7'']
         \<lparr>tareas = [''7'' \<mapsto> milk, ''8'' \<mapsto> bread]\<rparr> ''7'')
       = {t \<in> ran (tareas \<lparr>tareas = [''7'' \<mapsto> milk, ''8'' \<mapsto> bread]\<rparr>). Tarea_UsuarioID t = ''7''}
   \<and> length (RepositorioTareaMem_ListarPorUsuario [''8'', ''7'']
         \<lparr>tareas = [''7'' \<mapsto> milk, ''8'' \<mapsto> bread]\<rparr> ''7'')
       = card {k. \<exists>t. tareas \<lparr>tareas = [''7'' \<mapsto> milk, ''8'' \<mapsto> bread]\<rparr> k = Some t
                \<and> Tarea_UsuarioID t = ''7''}
   \<and> set [''8'', ''7''] = dom (tasks \<lparr>tasks = [''7'' \<mapsto> milk_en, ''8'' \<mapsto> bread_en]\<rparr>)
   \<and> InMemoryTaskRepo_ListByUser [''8'', ''7'']
         \<lparr>tasks = [''7'' \<mapsto> milk_en, ''8'' \<mapsto> bread_en]\<rparr> ''7'' = [milk_en]
   \<and> set (InMemoryTaskRepo_ListByUser [''8'', ''7'']
         \<lparr>tasks = [''7'' \<mapsto> milk_en, ''8'' \<mapsto> bread_en]\<rparr> ''7'')
       = {t \<in> ran (tasks \<lparr>tasks = [''7'' \<mapsto> milk_en, ''8'' \<mapsto> bread_en]\<rparr>). Task_UserID t = ''7''}
   \<and> length (InMemoryTaskRepo_ListByUser [''8'', ''7'']
         \<lparr>tasks = [''7'' \<mapsto> milk_en, ''8'' \<mapsto> bread_en]\<rparr> ''7'')
       = card {k. \<exists>t. tasks \<lparr>tasks = [''7'' \<mapsto> milk_en, ''8'' \<mapsto> bread_en]\<rparr> k = Some t
                \<and> Task_UserID t = ''7''}"
proof -
  have d: "distinct [''8'', ''7'']"
    by simp
  have ks: "set [''8'', ''7''] = dom (tareas \<lparr>tareas = [''7'' \<mapsto> milk, ''8'' \<mapsto> bread]\<rparr>)"
    by auto
  have kn: "set [''8'', ''7''] = dom (tasks \<lparr>tasks = [''7'' \<mapsto> milk_en, ''8'' \<mapsto> bread_en]\<rparr>)"
    by auto
  have ls: "RepositorioTareaMem_ListarPorUsuario [''8'', ''7'']
              \<lparr>tareas = [''7'' \<mapsto> milk, ''8'' \<mapsto> bread]\<rparr> ''7'' = [milk]"
    by (simp add: RepositorioTareaMem_ListarPorUsuario_def milk_def bread_def)
  have ln: "InMemoryTaskRepo_ListByUser [''8'', ''7'']
              \<lparr>tasks = [''7'' \<mapsto> milk_en, ''8'' \<mapsto> bread_en]\<rparr> ''7'' = [milk_en]"
    by (simp add: InMemoryTaskRepo_ListByUser_def milk_en_def bread_en_def)
  note w = list_by_owner_exact [of "[''8'', ''7'']" "\<lparr>tareas = [''7'' \<mapsto> milk, ''8'' \<mapsto> bread]\<rparr>"
      "''7''" "[''8'', ''7'']" "\<lparr>tasks = [''7'' \<mapsto> milk_en, ''8'' \<mapsto> bread_en]\<rparr>" "''7''"]
  note a = w [THEN conjunct1, rule_format, OF ks, THEN conjunct1]
  note b = w [THEN conjunct2, THEN conjunct1, rule_format, OF conjI [OF d ks]]
  note c = w [THEN conjunct2, THEN conjunct2, THEN conjunct1, rule_format, OF kn, THEN conjunct1]
  note e = w [THEN conjunct2, THEN conjunct2, THEN conjunct2, rule_format, OF conjI [OF d kn]]
  show ?thesis
    by (intro conjI d ks ls a b kn ln c e)
qed

section \<open>Save and find\<close>

text \<open>
  C5. Saving an owner and then looking up its identifier succeeds and returns that owner,
  whatever the repository held before, in both variants.
\<close>

theorem save_then_find_owner:
  "RepositorioUsuarioMem_BuscarPorID (snd (RepositorioUsuarioMem_Guardar r u)) (Usuario_ID u)
     = (u, None)
   \<and> fst (RepositorioUsuarioMem_Guardar r u) = None
   \<and> InMemoryUserRepo_FindByID (snd (InMemoryUserRepo_Save r' u')) (User_ID u') = (u', None)
   \<and> fst (InMemoryUserRepo_Save r' u') = None"
  by (simp add: RepositorioUsuarioMem_BuscarPorID_def RepositorioUsuarioMem_Guardar_def
      InMemoryUserRepo_FindByID_def InMemoryUserRepo_Save_def)

section \<open>Lookup failures\<close>

text \<open>
  C6. A lookup in the owner repository or in the task repository returns the not-found
  error (next to the zero value) when the key is unbound, and the stored entity with a nil
  error when it is bound; so it fails exactly when the key is unbound. In the empty
  repository every lookup fails. In a repository keyed by identifier, a lookup of \<open>k\<close>
  fails exactly when no stored entity has identifier \<open>k\<close>, and succeeds exactly when
  one has, which is then the entity returned.
\<close>

theorem find_by_id_not_found:
  "(usuarios r k = None \<longrightarrow>
      RepositorioUsuarioMem_BuscarPorID r k
        = (Usuario_zero, Some (Errorf ''usuario no encontrado'')))
   \<and> (\<forall>u. usuarios r k = Some u \<longrightarrow> RepositorioUsuarioMem_BuscarPorID r k = (u, None))
   \<and> RepositorioUsuarioMem_BuscarPorID NuevoRepositorioUsuarioMem k
        = (Usuario_zero, Some (Errorf ''usuario no encontrado''))
   \<and> (usuarios_keyed r \<longrightarrow>
        (snd (RepositorioUsuarioMem_BuscarPorID r k) = Some (Errorf ''usuario no encontrado''))
          = (\<not> (\<exists>u \<in> ran (usuarios r). Usuario_ID u = k))
        \<and> (snd (RepositorioUsuarioMem_BuscarPorID r k) = None)
          = (\<exists>u \<in> ran (usuarios r). Usuario_ID u = k
               \<and> fst (RepositorioUsuarioMem_BuscarPorID r k) = u))
   \<and> (tareas s k = None \<longrightarrow>
        RepositorioTareaMem_BuscarPorID s k
          = (Tarea_zero, Some (Errorf ''tarea no encontrada'')))
   \<and> (\<forall>t. tareas s k = Some t \<longrightarrow> RepositorioTareaMem_BuscarPorID s k = (t, None))
   \<and> RepositorioTareaMem_BuscarPorID NuevoRepositorioTareaMem k
        = (Tarea_zero, Some (Errorf ''tarea no encontrada''))
   \<and> (tareas_keyed s \<longrightarrow>
        (snd (RepositorioTareaMem_BuscarPorID s k) = Some (Errorf ''tarea no encontrada''))
          = (\<not> (\<exists>t \<in> ran (tareas s). Tarea_ID t = k))
        \<and> (snd (RepositorioTareaMem_BuscarPorID s k) = None)
          = (\<exists>t \<in> ran (tareas s). Tarea_ID t = k
               \<and> fst (RepositorioTareaMem_BuscarPorID s k) = t))"
proof -
  have ua: "usuarios r k = None \<longrightarrow>
      RepositorioUsuarioMem_BuscarPorID r k
        = (Usuario_zero, Some (Errorf ''usuario no encontrado''))"
    and ub: "\<forall>u. usuarios r k = Some u \<longrightarrow> RepositorioUsuarioMem_BuscarPorID r k = (u, None)"
    and uc: "RepositorioUsuarioMem_BuscarPorID NuevoRepositorioUsuarioMem k
        = (Usuario_zero, Some (Errorf ''usuario no encontrado''))"
    by (simp_all add: RepositorioUsuarioMem_BuscarPorID_def NuevoRepositorioUsuarioMem_def)
  have ta: "tareas s k = None \<longrightarrow>
        RepositorioTareaMem_BuscarPorID s k
          = (Tarea_zero, Some (Errorf ''tarea no encontrada''))"
    and tb: "\<forall>t. tareas s k = Some t \<longrightarrow> RepositorioTareaMem_BuscarPorID s k = (t, None)"
    and tc: "RepositorioTareaMem_BuscarPorID NuevoRepositorioTareaMem k
        = (Tarea_zero, Some (Errorf ''tarea no encontrada''))"
    by (simp_all add: RepositorioTareaMem_BuscarPorID_def NuevoRepositorioTareaMem_def)
  have ud: "usuarios_keyed r \<longrightarrow>
        (snd (RepositorioUsuarioMem_BuscarPorID r k) = Some (Errorf ''usuario no encontrado''))
          = (\<not> (\<exists>u \<in> ran (usuarios r). Usuario_ID u = k))
        \<and> (snd (RepositorioUsuarioMem_BuscarPorID r k) = None)
          = (\<exists>u \<in> ran (usuarios r). Usuario_ID u = k
               \<and> fst (RepositorioUsuarioMem_BuscarPorID r k) = u)"
  proof (cases "usuarios r k")
    case None
    then have "usuarios_keyed r \<longrightarrow> \<not> (\<exists>u \<in> ran (usuarios r). Usuario_ID u = k)"
      by (simp add: usuarios_keyed_stored)
    with None show ?thesis
      by (simp add: RepositorioUsuarioMem_BuscarPorID_def)
  next
    case (Some u)
    then have "u \<in> ran (usuarios r)"
      by (auto simp: ran_def)
    with Some show ?thesis
      by (auto simp: usuarios_keyed_def RepositorioUsuarioMem_BuscarPorID_def)
  qed
  have td: "tareas_keyed s \<longrightarrow>
        (snd (RepositorioTareaMem_BuscarPorID s k) = Some (Errorf ''tarea no encontrada''))
          = (\<not> (\<exists>t \<in> ran (tareas s). Tarea_ID t = k))
        \<and> (snd (RepositorioTareaMem_BuscarPorID s k) = None)
          = (\<exists>t \<in> ran (tareas s). Tarea_ID t = k
               \<and> fst (RepositorioTareaMem_BuscarPorID s k) = t)"
  proof (cases "tareas s k")
    case None
    then have "tareas_keyed s \<longrightarrow> \<not> (\<exists>t \<in> ran (tareas s). Tarea_ID t = k)"
      by (simp add: tareas_keyed_stored)
    with None show ?thesis
      by (simp add: RepositorioTareaMem_BuscarPorID_def)
  next
    case (Some t)
    then have "t \<in> ran (tareas s)"
      by (auto simp: ran_def)
    with Some show ?thesis
      by (auto simp: tareas_keyed_def RepositorioTareaMem_BuscarPorID_def)
  qed
  show ?thesis
    by (intro conjI ua ub uc ud ta tb tc td)
qed

text \<open>A repository with one entry, looked up under its key and under another one.\<close>

theorem find_by_id_not_found_witness:
  "RepositorioUsuarioMem_BuscarPorID \<lparr>usuarios = [''7'' \<mapsto> alice]\<rparr> ''7'' = (alice, None)
   \<and> RepositorioUsuarioMem_BuscarPorID \<lparr>usuarios = [''7'' \<mapsto> alice]\<rparr> ''8''
        = (Usuario_zero, Some (Errorf ''usuario no encontrado''))
   \<and> RepositorioTareaMem_BuscarPorID \<lparr>tareas = [''7'' \<mapsto> milk]\<rparr> ''7'' = (milk, None)
   \<and> RepositorioTareaMem_BuscarPorID \<lparr>tareas = [''7'' \<mapsto> milk]\<rparr> ''8''
        = (Tarea_zero, Some (Errorf ''tarea no encontrada''))
   \<and> usuarios_keyed \<lparr>usuarios = [''7'' \<mapsto> alice]\<rparr>
   \<and> tareas_keyed \<lparr>tareas = [''7'' \<mapsto> milk]\<rparr>"
  using find_by_id_not_found [of "\<lparr>usuarios = [''7'' \<mapsto> alice]\<rparr>" "''7''" "\<lparr>tareas = [''7'' \<mapsto> milk]\<rparr>"]
    find_by_id_not_found [of "\<lparr>usuarios = [''7'' \<mapsto> alice]\<rparr>" "''8''" "\<lparr>tareas = [''7'' \<mapsto> milk]\<rparr>"]
  by (simp add: usuarios_keyed_def tareas_keyed_def alice_def milk_def)

section \<open>Creating a task\<close>

text \<open>
  C7. \<open>CrearTarea\<close> has no access to the owner repository: it is not among its
  arguments. For every owner-identifier and title it succeeds and returns the task with
  the generated identifier, that owner-identifier, that title and status \<open>Pendiente\<close>; the
  repository afterwards holds this task under its identifier. The same holds for
  \<open>CreateTask\<close>.
\<close>

theorem create_task_unchecked_owner:
  "CrearTarea p r usuarioID titulo =
     ((\<lparr>Tarea_ID = generarID p, Tarea_UsuarioID = usuarioID, Tarea_Titulo = titulo,
        Tarea_Estado = Pendiente\<rparr>, None),
      r\<lparr>tareas := (tareas r)(generarID p \<mapsto>
        \<lparr>Tarea_ID = generarID p, Tarea_UsuarioID = usuarioID, Tarea_Titulo = titulo,
         Tarea_Estado = Pendiente\<rparr>)\<rparr>)
   \<and> tareas (snd (CrearTarea p r usuarioID titulo))
        (Tarea_ID (fst (fst (CrearTarea p r usuarioID titulo))))
       = Some (fst (fst (CrearTarea p r usuarioID titulo)))
   \<and> CreateTask p r' userID title =
       ((\<lparr>Task_ID = generateID p, Task_UserID = userID, Task_Title = title,
          Task_Status = TaskPending\<rparr>, None),
        r'\<lparr>tasks := (tasks r')(generateID p \<mapsto>
          \<lparr>Task_ID = generateID p, Task_UserID = userID, Task_Title = title,
           Task_Status = TaskPending\<rparr>)\<rparr>)
   \<and> tasks (snd (CreateTask p r' userID title))
        (Task_ID (fst (fst (CreateTask p r' userID title))))
       = Some (fst (fst (CreateTask p r' userID title)))"
  by (simp add: CrearTarea_eq CreateTask_eq)

section \<open>Creating an owner in the two variants\<close>




section \<open>Trimming an input line\<close>

text \<open>
  Both helpers drop the last byte of a non-empty string, whatever that byte is, and panic
  on the empty string.
\<close>

lemma limpiar_eq:
  "limpiar s = (if s = [] then Inl (SliceBoundsOutOfRange (- 1)) else Inr (butlast s))"
  by (cases s rule: rev_cases) (simp_all add: limpiar_def)

lemma trim_eq:
  "trim s = (if s = [] then Inl (SliceBoundsOutOfRange (- 1)) else Inr (butlast s))"
  by (cases s rule: rev_cases) (simp_all add: trim_def)

text \<open>
  C9. The claim is that the helper is defined on every line read and removes the trailing
  newline, also for a line without one and for the empty string. The code does not: on
  the empty string, which \<open>ReadString\<close> returns at the end of the input, the slice bound
  is \<open>-1\<close> and the helper panics; on \<open>Alice\<close>, a last line without a newline, it
  returns \<open>Alic\<close>.
\<close>

theorem trim_panics_on_empty_line:
  "limpiar [] = Inl (SliceBoundsOutOfRange (- 1))
   \<and> trim [] = Inl (SliceBoundsOutOfRange (- 1))
   \<and> limpiar ''Alice'' = Inr ''Alic''
   \<and> trim ''Alice'' = Inr ''Alic''"
  by (simp add: limpiar_eq trim_eq)

section \<open>Frame of save and update\<close>

text \<open>
  C10. Saving or updating an entity leaves every other key as it was: for a key \<open>k\<close>
  other than the entity's identifier, a lookup of \<open>k\<close> after \<open>Guardar\<close> (of a task or of
  an owner) or after \<open>Actualizar\<close>, whether it succeeded or failed, returns what it
  returned before, the same entity or the same error.
\<close>

theorem save_update_frame:
  "(k \<noteq> Tarea_ID e \<longrightarrow>
      RepositorioTareaMem_BuscarPorID (snd (RepositorioTareaMem_Guardar r e)) k
        = RepositorioTareaMem_BuscarPorID r k
      \<and> RepositorioTareaMem_BuscarPorID (snd (RepositorioTareaMem_Actualizar r e)) k
        = RepositorioTareaMem_BuscarPorID r k)
   \<and> (k \<noteq> Usuario_ID u \<longrightarrow>
        RepositorioUsuarioMem_BuscarPorID (snd (RepositorioUsuarioMem_Guardar s u)) k
          = RepositorioUsuarioMem_BuscarPorID s k)"
  by (simp add: RepositorioTareaMem_BuscarPorID_def RepositorioTareaMem_Guardar_def
      RepositorioTareaMem_Actualizar_def RepositorioUsuarioMem_BuscarPorID_def
      RepositorioUsuarioMem_Guardar_def split: option.splits)

text \<open>The entry under 7 survives a save and an update of the entity with identifier 8.\<close>

theorem save_update_frame_witness:
  "''7'' \<noteq> Tarea_ID (milk\<lparr>Tarea_ID := ''8''\<rparr>)
   \<and> RepositorioTareaMem_BuscarPorID
        (snd (RepositorioTareaMem_Guardar \<lparr>tareas = [''7'' \<mapsto> milk]\<rparr> (milk\<lparr>Tarea_ID := ''8''\<rparr>))) ''7''
       = (milk, None)
   \<and> RepositorioTareaMem_BuscarPorID
        (snd (RepositorioTareaMem_Actualizar \<lparr>tareas = [''7'' \<mapsto> milk, ''8'' \<mapsto> milk\<lparr>Tarea_ID := ''8''\<rparr>]\<rparr>
           (milk\<lparr>Tarea_ID := ''8'', Tarea_Titulo := ''Buy bread''\<rparr>))) ''7''
       = (milk, None)
   \<and> ''7'' \<noteq> Usuario_ID (alice\<lparr>Usuario_ID := ''8''\<rparr>)
   \<and> RepositorioUsuarioMem_BuscarPorID
        (snd (RepositorioUsuarioMem_Guardar \<lparr>usuarios = [''7'' \<mapsto> alice]\<rparr> (alice\<lparr>Usuario_ID := ''8''\<rparr>))) ''7''
       = (alice, None)"
  using
    save_update_frame [of "''7''" "milk\<lparr>Tarea_ID := ''8''\<rparr>" "\<lparr>tareas = [''7'' \<mapsto> milk]\<rparr>"
      "alice\<lparr>Usuario_ID := ''8''\<rparr>" "\<lparr>usuarios = [''7'' \<mapsto> alice]\<rparr>"]
    save_update_frame [of "''7''" "milk\<lparr>Tarea_ID := ''8'', Tarea_Titulo := ''Buy bread''\<rparr>"
      "\<lparr>tareas = [''7'' \<mapsto> milk, ''8'' \<mapsto> milk\<lparr>Tarea_ID := ''8''\<rparr>]\<rparr>"
      "alice\<lparr>Usuario_ID := ''8''\<rparr>" "\<lparr>usuarios = [''7'' \<mapsto> alice]\<rparr>"]
  by (simp add: milk_def alice_def RepositorioTareaMem_BuscarPorID_def
      RepositorioUsuarioMem_BuscarPorID_def)

end
